theory Spec2Isabelle
  imports Main "HOL-Library.Sublist"
begin

section \<open>Data model\<close>

text \<open>
  The adapter in \<^verbatim>\<open>daemon/containerd\<close> works on the content engine's value types.
  Digests and media types are strings; a descriptor carries an optional platform
  (a nil pointer in Go is \<open>None\<close>); an image record is a name with a target descriptor.
\<close>

type_synonym digest = string

record platform =
  OS :: string
  Architecture :: string
  Variant :: string

record descriptor =
  MediaType :: string
  Digest :: digest
  Platform :: "platform option"

record image =
  Name :: string
  Target :: descriptor

record RootFS =
  Type :: string
  DiffIDs :: "digest list"

section \<open>RootFS child relation\<close>

text \<open>
  Modelled from the spec: the body of \<^verbatim>\<open>isRootfsChildOf\<close> is not among the sources (only its
  test table in \<^verbatim>\<open>TestIsRootfsChildOf\<close> is). The specification asks for a total, linear-time
  predicate that holds iff the parent's diff-ID list is a strict prefix of the child's list.
  The walk below compares the two lists position by position: it succeeds when the parent
  is exhausted while the child still has layers, and fails on the first mismatch or when
  the child is exhausted first.
\<close>

fun diffIDsChildOf :: "digest list \<Rightarrow> digest list \<Rightarrow> bool" where
  "diffIDsChildOf [] ps = False"
| "diffIDsChildOf (c # cs) [] = True"
| "diffIDsChildOf (c # cs) (p # ps) = (c = p \<and> diffIDsChildOf cs ps)"

definition isRootfsChildOf :: "RootFS \<Rightarrow> RootFS \<Rightarrow> bool" where
  "isRootfsChildOf child parent = diffIDsChildOf (DiffIDs child) (DiffIDs parent)"

text \<open>
  \<^verbatim>\<open>toRootfs\<close> of the test file: one letter is one distinct diff-ID. The test hashes each
  letter with \<^verbatim>\<open>digest.FromString\<close>; the hash is kept symbolic here as the one-letter
  string itself, which is all the test relies on (distinct letters, distinct digests).
\<close>

definition toRootfs :: "string \<Rightarrow> RootFS" where
  "toRootfs values = \<lparr>Type = ''layers'', DiffIDs = map (\<lambda>v. [v]) values\<rparr>"

section \<open>Errors\<close>

text \<open>
  Go errors as values. \<open>ErrNew\<close> is a plain error with a message (\<^verbatim>\<open>errors.New\<close>,
  \<^verbatim>\<open>errors.Errorf\<close>, or an engine failure); \<open>ErrNotFound\<close> is the engine's not-found
  error, the one \<^verbatim>\<open>cerrdefs.IsNotFound\<close> recognises; \<open>Wrap\<close> is \<^verbatim>\<open>errors.Wrap(err, msg)\<close>;
  \<open>Errorf_w s err\<close> is \<^verbatim>\<open>fmt.Errorf("%s: %w", s, err)\<close>; \<open>InvalidParameter\<close> and
  \<open>NotFound\<close> are the daemon's \<^verbatim>\<open>errdefs\<close> classes around a cause.
\<close>

datatype error =
    ErrNew string
  | ErrNotFound string
  | Wrap error string
  | Errorf_w string error
  | InvalidParameter error
  | NotFound error

text \<open>The \<^verbatim>\<open>Error()\<close> method: the message of an error.\<close>

fun Error :: "error \<Rightarrow> string" where
  "Error (ErrNew s) = s"
| "Error (ErrNotFound s) = s"
| "Error (Wrap err msg) = msg @ '': '' @ Error err"
| "Error (Errorf_w s err) = s @ '': '' @ Error err"
| "Error (InvalidParameter err) = Error err"
| "Error (NotFound err) = Error err"

text \<open>\<^verbatim>\<open>cerrdefs.IsNotFound\<close> on a non-nil error: it follows the chain of causes.\<close>

fun IsNotFound :: "error \<Rightarrow> bool" where
  "IsNotFound (ErrNew s) = False"
| "IsNotFound (ErrNotFound s) = True"
| "IsNotFound (Wrap err msg) = IsNotFound err"
| "IsNotFound (Errorf_w s err) = IsNotFound err"
| "IsNotFound (InvalidParameter err) = IsNotFound err"
| "IsNotFound (NotFound err) = IsNotFound err"

text \<open>
  A Go call either returns or panics. The only panics of this code are nil dereferences.
\<close>

datatype 'a outcome = Return 'a | Panic

section \<open>References\<close>

text \<open>
  What \<^verbatim>\<open>reference.ParseAnyReference\<close> can return, as \<^verbatim>\<open>resolveImage\<close> looks at it: a
  reference that carries a digest (the type assertion to \<^verbatim>\<open>reference.Digested\<close> succeeds),
  or a name with an optional tag.
\<close>

datatype reference =
    Digested digest
  | Named string "string option"

text \<open>
  Modelled from the spec: \<^verbatim>\<open>reference.TagNameOnly\<close> and the \<^verbatim>\<open>String()\<close> form of a named
  reference belong to the reference library. Tag-name-only normalisation appends
  \<^verbatim>\<open>:latest\<close> iff there is no tag and no digest.
\<close>

fun TagNameOnly :: "reference \<Rightarrow> reference" where
  "TagNameOnly (Named n None) = Named n (Some ''latest'')"
| "TagNameOnly r = r"

fun String :: "reference \<Rightarrow> string" where
  "String (Named n None) = n"
| "String (Named n (Some t)) = n @ '':'' @ t"
| "String (Digested d) = d"

text \<open>
  \<^verbatim>\<open>var shortID = regexp.MustCompile(`^([a-f0-9]{4,64})$`)\<close> and its
  \<^verbatim>\<open>MatchString\<close>.
\<close>

definition shortID :: "string \<Rightarrow> bool" where
  "shortID s = (4 \<le> length s \<and> length s \<le> 64 \<and> list_all (\<lambda>c. c \<in> set ''abcdef0123456789'') s)"

section \<open>The content engine\<close>

text \<open>
  The filters \<^verbatim>\<open>resolveImage\<close> and \<^verbatim>\<open>GetImage\<close> format for \<^verbatim>\<open>ImageService.List\<close>:
  \<^verbatim>\<open>name==<q>\<close>, \<^verbatim>\<open>target.digest==<d>\<close> and
  \<^verbatim>\<open>target.digest~=/sha256:<prefix>[0-9a-fA-F]{<n>}/\<close>.
\<close>

datatype filter =
    NameEq string
  | DigestEq digest
  | DigestRegex string nat

type_synonym mount = string

datatype ChangeType = ChangeModify | ChangeAdd | ChangeDelete

record Change =
  Path :: string
  Kind :: ChangeType

text \<open>
  The three ways \<^verbatim>\<open>converter.Convert\<close> returns: no image and an error, an image
  together with an error (the record could not be stored), or an image alone. The image
  is the one \<^verbatim>\<open>Convert\<close> returned, as it returned it.
\<close>

datatype converted =
    ConvertFailed error
  | ConvertStoreFailed image error
  | Converted image

text \<open>
  The platform matcher handed to the archive writer: the host's default matcher inside
  \<^verbatim>\<open>allPlatformsWithPreference\<close>, which matches every platform and delegates the
  ordering to the preferred matcher.
\<close>

datatype MatchComparer =
    platforms_Default
  | allPlatformsWithPreference MatchComparer

fun Match :: "(platform \<Rightarrow> bool) \<Rightarrow> MatchComparer \<Rightarrow> platform \<Rightarrow> bool" where
  "Match dflt (allPlatformsWithPreference preferred) p = True"
| "Match dflt platforms_Default p = dflt p"

fun Less :: "(platform \<Rightarrow> platform \<Rightarrow> bool) \<Rightarrow> MatchComparer \<Rightarrow> platform \<Rightarrow> platform \<Rightarrow> bool" where
  "Less dflt (allPlatformsWithPreference preferred) p1 p2 = Less dflt preferred p1 p2"
| "Less dflt platforms_Default p1 p2 = dflt p1 p2"

text \<open>The export instructions of \<^verbatim>\<open>images/archive\<close> that the adapter emits.\<close>

datatype ExportOpt =
    WithSkipNonDistributableBlobs
  | WithPlatform MatchComparer
  | WithImage string
  | WithManifest descriptor string

text \<open>The decoded OCI image config, as far as \<^verbatim>\<open>getImage\<close> reads it.\<close>

record ImageConfig =
  Entrypoint :: "string list"
  Env :: "string list"
  Cmd :: "string list"
  User :: string
  WorkingDir :: string
  ExposedPorts :: "string list"
  Volumes :: "string list"

record ociImage =
  oci_OS :: string
  oci_Architecture :: string
  oci_Config :: ImageConfig

text \<open>
  The external collaborators (content engine, snapshotter, reference parser, mount and
  archive helpers) are a black box: one function per capability the adapter calls, with
  the errors it may return. A Go call that returns a value and an error is a sum, or a
  pair where the code reads the value next to the error.
\<close>

record engine =
  ParseAnyReference :: "string \<Rightarrow> error + reference"
  ParseNamed :: "string \<Rightarrow> error + reference"
  is_List :: "filter list \<Rightarrow> error + image list"
  is_Get :: "string \<Rightarrow> error + image"
  is_Delete :: "string \<Rightarrow> error option"
  images_Platforms :: "descriptor \<Rightarrow> error + platform list"
  images_Children :: "descriptor \<Rightarrow> error + descriptor list"
  images_IsIndexType :: "string \<Rightarrow> bool"
  images_IsManifestType :: "string \<Rightarrow> bool"
  store_ReaderAt :: "descriptor \<Rightarrow> error option"
  platforms_Only :: "platform \<Rightarrow> platform \<Rightarrow> bool"
  platforms_Format :: "platform \<Rightarrow> string"
  converter_Convert :: "string \<Rightarrow> string \<Rightarrow> platform list \<Rightarrow> converted"
  client_Export :: "ExportOpt list \<Rightarrow> error option"
  image_RootFS :: "image \<Rightarrow> platform option \<Rightarrow> error + digest list"
  image_Config :: "image \<Rightarrow> platform option \<Rightarrow> error + descriptor"
  content_ReadBlob :: "descriptor \<Rightarrow> error + string"
  json_Unmarshal :: "string \<Rightarrow> error + ociImage"
  snapshotter_Mounts :: "string \<Rightarrow> mount list \<times> error option"
  snapshotter_View :: "string \<Rightarrow> string \<Rightarrow> error + mount list"
  snapshotter_Remove :: "string \<Rightarrow> error option"
  uuid_NewRandom :: "error + string"
  identity_ChainID :: "digest list \<Rightarrow> string"
  oci_ReadonlyMounts :: "mount list \<Rightarrow> mount list"
  mount_All :: "mount list \<Rightarrow> error option"
  archive_ChangesDirs :: "mount list \<Rightarrow> mount list \<Rightarrow> Change list \<times> error option"
  client_Import :: "error + image list"
  image_IsUnpacked :: "image \<Rightarrow> error + bool"
  image_Unpack :: "image \<Rightarrow> error option"

section \<open>Image resolution\<close>

text \<open>
  The loop of the short-ID branch over the listed records: a record whose name is the
  candidate named form is returned at once (\<open>Inl\<close>); otherwise its target digest is
  added to the \<^verbatim>\<open>digests\<close> map, a set of keys, which is the loop's result (\<open>Inr\<close>).
\<close>

fun collectDigests :: "string \<Rightarrow> image list \<Rightarrow> digest set \<Rightarrow> image + digest set" where
  "collectDigests ref [] digests = Inr digests"
| "collectDigests ref (img # imgs) digests =
     (if Name img = ref then Inl img
      else collectDigests ref imgs (insert (Digest (Target img)) digests))"

text \<open>
  \<^verbatim>\<open>resolveImage\<close>. The zero image returned next to an error, and the record returned
  next to the platform errors, are dropped: every caller discards them when the error
  is set. The assignment \<^verbatim>\<open>namedRef = nil\<close> before the short-ID return has no reader.
\<close>

definition resolveImage :: "engine \<Rightarrow> string \<Rightarrow> platform option \<Rightarrow> error + image" where
  "resolveImage i refOrID platform =
     (case ParseAnyReference i refOrID of
        Inl err \<Rightarrow> Inl (InvalidParameter err)
      | Inr (Digested dgst) \<Rightarrow>
          (case is_List i [DigestEq dgst] of
             Inl err \<Rightarrow> Inl (Wrap err ''failed to lookup digest'')
           | Inr [] \<Rightarrow> Inl (NotFound (ErrNew ''image not found with digest''))
           | Inr (img0 # _) \<Rightarrow> Inr img0)
      | Inr (Named n t) \<Rightarrow>
          (let namedRef = TagNameOnly (Named n t) in
           if shortID refOrID then
             (let ref = String namedRef in
              case is_List i [NameEq ref, DigestRegex refOrID (64 - length refOrID)] of
                Inl err \<Rightarrow> Inl err
              | Inr [] \<Rightarrow> Inl (NotFound (ErrNew ''list returned no images''))
              | Inr (img0 # imgs) \<Rightarrow>
                  (if length (img0 # imgs) > 1 then
                     (case collectDigests ref (img0 # imgs) {} of
                        Inl img \<Rightarrow> Inr img
                      | Inr digests \<Rightarrow>
                          if card digests > 1
                          then Inl (NotFound (ErrNew ''ambiguous reference''))
                          else Inr img0)
                   else Inr img0))
           else
             (case is_Get i (String namedRef) of
                Inl err \<Rightarrow>
                  if \<not> IsNotFound err then Inl err
                  else Inl (NotFound (ErrNew ''id not found''))
              | Inr img \<Rightarrow>
                  (case platform of
                     None \<Rightarrow> Inr img
                   | Some p \<Rightarrow>
                       (case images_Platforms i (Target img) of
                          Inl err \<Rightarrow> Inl err
                        | Inr imgPlatforms \<Rightarrow>
                            if list_ex (platforms_Only i p) imgPlatforms then Inr img
                            else Inl (NotFound (ErrNew
                              (''platform '' @ platforms_Format i p @ '' not supported''))))))))"

section \<open>Materialising an image\<close>

text \<open>
  A \<^verbatim>\<open>containerd.Image\<close> handle: the record and the platform it was built for
  (\<open>None\<close> for \<^verbatim>\<open>containerd.NewImage\<close>, \<open>Some p\<close> for
  \<^verbatim>\<open>NewImageWithPlatform(.., platforms.OnlyStrict(p))\<close>).
\<close>

record containerdImage =
  ctrdimg :: image
  onlyStrict :: "platform option"

text \<open>The daemon's \<^verbatim>\<open>image.Image\<close>, with the fields \<^verbatim>\<open>getImage\<close> fills in.\<close>

record Image =
  V1Image_ID :: string
  V1Image_OS :: string
  V1Image_Architecture :: string
  V1Image_Config :: ImageConfig
  Image_RootFS :: "digest list"

definition getImage :: "engine \<Rightarrow> string \<Rightarrow> platform option \<Rightarrow> error + (containerdImage \<times> Image)" where
  "getImage i refOrID platform =
     (case resolveImage i refOrID platform of
        Inl err \<Rightarrow> Inl err
      | Inr img \<Rightarrow>
          (let containerdImage = \<lparr>ctrdimg = img, onlyStrict = platform\<rparr> in
           case image_Config i img platform of
             Inl err \<Rightarrow> Inl err
           | Inr conf \<Rightarrow>
               (case content_ReadBlob i conf of
                  Inl err \<Rightarrow> Inl err
                | Inr imageConfigBytes \<Rightarrow>
                    (case json_Unmarshal i imageConfigBytes of
                       Inl err \<Rightarrow> Inl err
                     | Inr ociimage \<Rightarrow>
                         (case image_RootFS i img platform of
                            Inl err \<Rightarrow> Inl err
                          | Inr fs \<Rightarrow>
                              Inr (containerdImage,
                                   \<lparr>V1Image_ID = Digest (Target img),
                                    V1Image_OS = oci_OS ociimage,
                                    V1Image_Architecture = oci_Architecture ociimage,
                                    V1Image_Config = oci_Config ociimage,
                                    Image_RootFS = fs\<rparr>))))))"

section \<open>Computing the changes of a container\<close>

record Container =
  ID :: string
  Config_Image :: string
  Config_Platform :: platform

text \<open>
  The calls \<^verbatim>\<open>Changes\<close>, \<^verbatim>\<open>ExportImage\<close> and \<^verbatim>\<open>LoadImage\<close> make on the engine, in the
  order they are made. \<open>EvDelete\<close> carries what the deletion returned.
\<close>

datatype event =
    EvMounts string
  | EvGetImage string
  | EvRootFS
  | EvNewRandom
  | EvView string string
  | EvMount "mount list"
  | EvUnmount "mount list"
  | EvChangesDirs "mount list" "mount list"
  | EvRemove string
  | EvTmpImage string
  | EvExport "ExportOpt list"
  | EvDelete string "error option"
  | EvImport
  | EvIsUnpacked image
  | EvUnpack image

text \<open>
  Modelled from the spec: \<^verbatim>\<open>mount.WithTempMount\<close> belongs to the engine's mount package.
  It is a scoped acquisition that mounts, calls \<open>fn\<close> with the mountpoint, and unmounts
  on every exit path. When mounting fails \<open>fn\<close> is not called. The mountpoint is a
  fresh temporary directory; it is identified here by the mount set it shows. \<open>fn\<close>
  is a closure over the caller's variables \<open>s\<close>, which it may assign.
\<close>

definition WithTempMount ::
  "engine \<Rightarrow> mount list \<Rightarrow> (mount list \<Rightarrow> 's \<Rightarrow> ('s \<times> error option) \<times> event list)
     \<Rightarrow> 's \<Rightarrow> ('s \<times> error option) \<times> event list" where
  "WithTempMount i mounts fn s =
     (case mount_All i mounts of
        Some err \<Rightarrow> ((s, Some err), [])
      | None \<Rightarrow>
          (case fn mounts s of
             (r, tr) \<Rightarrow> (r, [EvMount mounts] @ tr @ [EvUnmount mounts])))"

text \<open>
  The deferred function of \<^verbatim>\<open>Changes\<close>. It removes the view, then combines the removal
  result \<open>uerr\<close> with the named result \<open>err\<close>. With \<open>err\<close> set and \<open>uerr\<close> nil,
  \<^verbatim>\<open>uerr.Error()\<close> is a method call on a nil interface: a panic.
\<close>

definition Changes_deferred ::
  "engine \<Rightarrow> string \<Rightarrow> Change list \<times> error option \<Rightarrow> (Change list \<times> error option) outcome" where
  "Changes_deferred i rnd res =
     (case res of (changes, err) \<Rightarrow>
        (let uerr = snapshotter_Remove i rnd in
         case err of
           None \<Rightarrow> Return (changes, uerr)
         | Some e \<Rightarrow>
             (case uerr of
                None \<Rightarrow> Panic
              | Some u \<Rightarrow> Return (changes, Some (Errorf_w (Error u) e)))))"

text \<open>
  \<^verbatim>\<open>Changes\<close>, with the named results \<open>changes\<close> and \<open>err\<close>. The first check reads
  \<open>err\<close>, which nothing has assigned yet, not the \<open>uerr\<close> that \<^verbatim>\<open>Mounts\<close> returned.
  The result is the outcome of the call and the engine calls it made.
\<close>

definition Changes :: "engine \<Rightarrow> Container \<Rightarrow> (Change list \<times> error option) outcome \<times> event list" where
  "Changes i container =
     (let changes = []; err = None;
          (mounts, uerr) = snapshotter_Mounts i (ID container);
          tr1 = [EvMounts (ID container)]
      in
      if err \<noteq> None then (Return ([], uerr), tr1)
      else
        (let platform = Config_Platform container;
             tr2 = tr1 @ [EvGetImage (Config_Image container)]
         in
         case getImage i (Config_Image container) (Some platform) of
           Inl uerr \<Rightarrow> (Return ([], Some uerr), tr2)
         | Inr (baseImg, _) \<Rightarrow>
             (let tr3 = tr2 @ [EvRootFS] in
              case image_RootFS i (ctrdimg baseImg) (onlyStrict baseImg) of
                Inl uerr \<Rightarrow> (Return ([], Some uerr), tr3)
              | Inr diffIDs \<Rightarrow>
                  (let tr4 = tr3 @ [EvNewRandom] in
                   case uuid_NewRandom i of
                     Inl uerr \<Rightarrow> (Return ([], Some uerr), tr4)
                   | Inr rnd \<Rightarrow>
                       (let tr5 = tr4 @ [EvView rnd (identity_ChainID i diffIDs)] in
                        case snapshotter_View i rnd (identity_ChainID i diffIDs) of
                          Inl uerr \<Rightarrow> (Return ([], Some uerr), tr5)
                        | Inr parent \<Rightarrow>
                            (case WithTempMount i (oci_ReadonlyMounts i mounts)
                                    (\<lambda>fs. WithTempMount i parent
                                       (\<lambda>root (changes, err).
                                          (case archive_ChangesDirs i fs root of
                                             (changes', err') \<Rightarrow>
                                               (((changes', err'), err'), [EvChangesDirs fs root]))))
                                    (changes, err) of
                               (((changes', _), err'), tr) \<Rightarrow>
                                 (Changes_deferred i rnd (changes', err'),
                                  tr5 @ tr @ [EvRemove rnd])))))))"

section \<open>Exporting images\<close>

text \<open>
  The loop of \<^verbatim>\<open>optForImageExport\<close> that checks which platform manifests have their blob:
  it ends with the two platform lists, with an engine error, or with the panic of
  \<^verbatim>\<open>*child.Platform\<close> on a child that has no platform.
\<close>

datatype probed =
    Probed "platform list" "platform list"
  | ProbeFailed error
  | ProbePanic

fun probeChildren :: "engine \<Rightarrow> descriptor list \<Rightarrow> platform list \<Rightarrow> platform list \<Rightarrow> probed" where
  "probeChildren i [] missingPlatforms presentPlatforms = Probed missingPlatforms presentPlatforms"
| "probeChildren i (child # children) missingPlatforms presentPlatforms =
     (if images_IsManifestType i (MediaType child) then
        (case store_ReaderAt i child of
           Some err \<Rightarrow>
             (if IsNotFound err then
                (case Platform child of
                   None \<Rightarrow> ProbePanic
                 | Some p \<Rightarrow> probeChildren i children (missingPlatforms @ [p]) presentPlatforms)
              else ProbeFailed err)
         | None \<Rightarrow>
             (case Platform child of
                None \<Rightarrow> ProbePanic
              | Some p \<Rightarrow> probeChildren i children missingPlatforms (presentPlatforms @ [p])))
      else probeChildren i children missingPlatforms presentPlatforms)"

text \<open>
  \<^verbatim>\<open>optForImageExport\<close> returns the instruction, the temporary image and the error, each
  of which may be nil. \<open>uuid\<close> is the string \<^verbatim>\<open>uuid.NewString()\<close> yields in this call.
  The temporary image is the image \<^verbatim>\<open>converter.Convert\<close> returned, passed on as it is,
  also when it comes with an error.
\<close>

definition optForImageExport ::
  "engine \<Rightarrow> string \<Rightarrow> string \<Rightarrow> (ExportOpt option \<times> image option \<times> error option) outcome" where
  "optForImageExport i uuid name =
     (case resolveImage i name None of
        Inl err \<Rightarrow> Return (None, None, Some (Wrap err ''failed to resolve image''))
      | Inr img \<Rightarrow>
          (case ParseNamed i (Name img) of
             Inl err \<Rightarrow> Return (None, None, Some (Wrap err ''failed to parse image reference''))
           | Inr ref \<Rightarrow>
               (if images_IsIndexType i (MediaType (Target img)) then
                  (case images_Children i (Target img) of
                     Inl err \<Rightarrow> Return (None, None, Some err)
                   | Inr children \<Rightarrow>
                       (case probeChildren i children [] [] of
                          ProbePanic \<Rightarrow> Panic
                        | ProbeFailed err \<Rightarrow> Return (None, None, Some err)
                        | Probed missingPlatforms presentPlatforms \<Rightarrow>
                            (if length missingPlatforms = 0
                             then Return (Some (WithImage (Name img)), None, None)
                             else
                               (let srcRef = String ref;
                                    targetRef = srcRef @ ''-tmp-export'' @ uuid
                                in
                                case converter_Convert i targetRef srcRef presentPlatforms of
                                  ConvertFailed err \<Rightarrow> Return (None, None, Some err)
                                | ConvertStoreFailed newImg err \<Rightarrow>
                                    Return (None, Some newImg, Some err)
                                | Converted newImg \<Rightarrow>
                                    Return (Some (WithManifest (Target newImg) srcRef),
                                            Some newImg, None)))))
                else Return (Some (WithImage (Name img)), None, None))))"

text \<open>
  The state of \<^verbatim>\<open>ExportImage\<close> while it loops over the names: the options collected,
  the stack of deferred deletions (last scheduled first), and the engine calls so far.
\<close>

record exporting =
  opts :: "ExportOpt list"
  deferred :: "string list"
  trace :: "event list"

datatype loopExit = Fallthrough | ReturnErr error | Panicked

fun exportLoop ::
  "engine \<Rightarrow> (nat \<Rightarrow> string) \<Rightarrow> nat \<Rightarrow> string list \<Rightarrow> exporting \<Rightarrow> loopExit \<times> exporting" where
  "exportLoop i uuids k [] st = (Fallthrough, st)"
| "exportLoop i uuids k (imageRef # names) st =
     (case optForImageExport i (uuids k) imageRef of
        Panic \<Rightarrow> (Panicked, st)
      | Return (newOpt, tmpImage, err) \<Rightarrow>
          (let st1 = (case tmpImage of
                        None \<Rightarrow> st
                      | Some t \<Rightarrow> st\<lparr>deferred := Name t # deferred st,
                                     trace := trace st @ [EvTmpImage (Name t)]\<rparr>)
           in
           case err of
             Some e \<Rightarrow> (ReturnErr e, st1)
           | None \<Rightarrow>
               exportLoop i uuids (Suc k) names
                 (case newOpt of
                    None \<Rightarrow> st1
                  | Some opt \<Rightarrow> st1\<lparr>opts := opts st1 @ [opt]\<rparr>)))"

text \<open>
  The deferred deletions run on exit, last scheduled first. The result of
  \<^verbatim>\<open>Delete\<close> is discarded.
\<close>

fun runDeferred :: "engine \<Rightarrow> string list \<Rightarrow> event list \<Rightarrow> event list" where
  "runDeferred i [] tr = tr"
| "runDeferred i (n # ns) tr = runDeferred i ns (tr @ [EvDelete n (is_Delete i n)])"

text \<open>
  \<^verbatim>\<open>ExportImage\<close>. \<open>uuids k\<close> is the identifier drawn in the \<open>k\<close>-th iteration, if one
  is drawn there.
\<close>

definition ExportImage ::
  "engine \<Rightarrow> (nat \<Rightarrow> string) \<Rightarrow> string list \<Rightarrow> error option outcome \<times> event list" where
  "ExportImage i uuids names =
     (case exportLoop i uuids 0 names
             \<lparr>opts = [WithSkipNonDistributableBlobs,
                      WithPlatform (allPlatformsWithPreference platforms_Default)],
              deferred = [], trace = []\<rparr> of
        (Fallthrough, st) \<Rightarrow>
          (Return (client_Export i (opts st)),
           runDeferred i (deferred st) (trace st @ [EvExport (opts st)]))
      | (ReturnErr e, st) \<Rightarrow> (Return (Some e), runDeferred i (deferred st) (trace st))
      | (Panicked, st) \<Rightarrow> (Panic, runDeferred i (deferred st) (trace st)))"

text \<open>
  Modelled from the spec: the image store is the engine's. For the names it holds, the
  interface says that \<^verbatim>\<open>Delete(name, synchronous)\<close> tombstones the record; a deletion
  that returned an error leaves the record. A temporary image that the converter
  returned is taken to be in the store.
\<close>

fun storeStep :: "string set \<Rightarrow> event \<Rightarrow> string set" where
  "storeStep S (EvTmpImage n) = insert n S"
| "storeStep S (EvDelete n r) = (if r = None then S - {n} else S)"
| "storeStep S _ = S"

definition storeAfter :: "string set \<Rightarrow> event list \<Rightarrow> string set" where
  "storeAfter S tr = foldl storeStep S tr"

section \<open>Importing images\<close>

text \<open>
  The loop of \<^verbatim>\<open>LoadImage\<close> over the imported images. A failed unpack check is logged
  and the loop continues; a failed unpack returns.
\<close>

fun unpackLoop :: "engine \<Rightarrow> image list \<Rightarrow> error option \<times> event list" where
  "unpackLoop i [] = (None, [])"
| "unpackLoop i (img # imgs) =
     (case image_IsUnpacked i img of
        Inl err \<Rightarrow>
          (case unpackLoop i imgs of (r, tr) \<Rightarrow> (r, EvIsUnpacked img # tr))
      | Inr unpacked \<Rightarrow>
          (if \<not> unpacked then
             (case image_Unpack i img of
                Some err \<Rightarrow>
                  (Some (Wrap err ''failed to unpack image''),
                   [EvIsUnpacked img, EvUnpack img])
              | None \<Rightarrow>
                  (case unpackLoop i imgs of
                     (r, tr) \<Rightarrow> (r, EvIsUnpacked img # EvUnpack img # tr)))
           else
             (case unpackLoop i imgs of (r, tr) \<Rightarrow> (r, EvIsUnpacked img # tr))))"

definition LoadImage :: "engine \<Rightarrow> error option \<times> event list" where
  "LoadImage i =
     (case client_Import i of
        Inl err \<Rightarrow> (Some (Wrap err ''failed to import image''), [EvImport])
      | Inr imgs \<Rightarrow> (case unpackLoop i imgs of (r, tr) \<Rightarrow> (r, EvImport # tr)))"

section \<open>Stating the properties\<close>

text \<open>A value that may be nil, as the list of what is there.\<close>

fun option_list :: "'a option \<Rightarrow> 'a list" where
  "option_list None = []"
| "option_list (Some x) = [x]"

text \<open>
  What the presence probe of \<^verbatim>\<open>optForImageExport\<close> finds for a child: the blob is present
  (\<^verbatim>\<open>ReaderAt\<close> returns no error) or absent (it returns a not-found error).
\<close>

definition blobPresent :: "engine \<Rightarrow> descriptor \<Rightarrow> bool" where
  "blobPresent i child = (store_ReaderAt i child = None)"

definition blobAbsent :: "engine \<Rightarrow> descriptor \<Rightarrow> bool" where
  "blobAbsent i child = (case store_ReaderAt i child of None \<Rightarrow> False | Some err \<Rightarrow> IsNotFound err)"

text \<open>The platforms of the manifest children that satisfy \<open>P\<close>, in the order of the index.\<close>

definition manifestPlatforms ::
  "engine \<Rightarrow> (descriptor \<Rightarrow> bool) \<Rightarrow> descriptor list \<Rightarrow> platform list" where
  "manifestPlatforms i P children =
     List.map_filter
       (\<lambda>child. if images_IsManifestType i (MediaType child) \<and> P child then Platform child else None)
       children"

text \<open>
  What an export of the references \<open>names\<close> amounts to, read off the results of
  \<^verbatim>\<open>optForImageExport\<close> alone: the references are planned in order up to the first one
  whose planning returns an error or panics; the instructions returned are collected; and
  every temporary image returned, also one returned next to an error, is a temporary image
  of the export. The result is the instructions, the names of the temporary images in the
  order of their creation, and how the planning ended.
\<close>

fun planned ::
  "engine \<Rightarrow> (nat \<Rightarrow> string) \<Rightarrow> nat \<Rightarrow> string list \<Rightarrow> ExportOpt list \<times> string list \<times> loopExit" where
  "planned i uuids k [] = ([], [], Fallthrough)"
| "planned i uuids k (imageRef # names) =
     (case optForImageExport i (uuids k) imageRef of
        Panic \<Rightarrow> ([], [], Panicked)
      | Return (newOpt, tmpImage, err) \<Rightarrow>
          (case err of
             Some e \<Rightarrow> ([], map Name (option_list tmpImage), ReturnErr e)
           | None \<Rightarrow>
               (case planned i uuids (Suc k) names of
                  (os, ts, exit) \<Rightarrow>
                    (option_list newOpt @ os, map Name (option_list tmpImage) @ ts, exit))))"

text \<open>
  What \<^verbatim>\<open>LoadImage\<close> does with one image: the unpack check, and the unpack when the check
  says the image is not unpacked. An image fails when that unpack returns an error.
\<close>

definition unpackSteps :: "engine \<Rightarrow> image \<Rightarrow> event list" where
  "unpackSteps i img =
     (case image_IsUnpacked i img of
        Inl err \<Rightarrow> [EvIsUnpacked img]
      | Inr unpacked \<Rightarrow> if unpacked then [EvIsUnpacked img] else [EvIsUnpacked img, EvUnpack img])"

definition unpackFails :: "engine \<Rightarrow> image \<Rightarrow> bool" where
  "unpackFails i img = (image_IsUnpacked i img = Inr False \<and> image_Unpack i img \<noteq> None)"

section \<open>Example engines\<close>

text \<open>
  In-memory engines for the scenarios of the specification. \<open>quietEngine\<close> has an empty
  store and never fails; its reference parser reads its input as a bare repository name of
  the default registry, and no stored name is canonical for it. The other engines differ
  from it in the capabilities named.
\<close>

definition linux_amd64 :: platform where
  "linux_amd64 = \<lparr>OS = ''linux'', Architecture = ''amd64'', Variant = []\<rparr>"

definition linux_arm64 :: platform where
  "linux_arm64 = \<lparr>OS = ''linux'', Architecture = ''arm64'', Variant = []\<rparr>"

text \<open>
  The media types the example engines classify as an index and as a manifest: the Docker
  schema 2 and the OCI ones.
\<close>

definition IsIndexType :: "string \<Rightarrow> bool" where
  "IsIndexType mt =
     (mt = ''application/vnd.docker.distribution.manifest.list.v2+json''
      \<or> mt = ''application/vnd.oci.image.index.v1+json'')"

definition IsManifestType :: "string \<Rightarrow> bool" where
  "IsManifestType mt =
     (mt = ''application/vnd.docker.distribution.manifest.v2+json''
      \<or> mt = ''application/vnd.oci.image.manifest.v1+json'')"

definition quietEngine :: engine where
  "quietEngine =
     \<lparr>ParseAnyReference = (\<lambda>s. Inr (Named (''docker.io/library/'' @ s) None)),
      ParseNamed = (\<lambda>s. Inl (ErrNew ''repository name must be canonical'')),
      is_List = (\<lambda>filters. Inr []),
      is_Get = (\<lambda>n. Inl (ErrNotFound ''image not found'')),
      is_Delete = (\<lambda>n. None),
      images_Platforms = (\<lambda>d. Inr []),
      images_Children = (\<lambda>d. Inr []),
      images_IsIndexType = IsIndexType,
      images_IsManifestType = IsManifestType,
      store_ReaderAt = (\<lambda>d. None),
      platforms_Only = (\<lambda>p q. p = q),
      platforms_Format = (\<lambda>p. OS p @ ''/'' @ Architecture p),
      converter_Convert = (\<lambda>dst src ps. ConvertFailed (ErrNotFound ''image not found'')),
      client_Export = (\<lambda>opts. None),
      image_RootFS = (\<lambda>img p. Inr []),
      image_Config = (\<lambda>img p. Inr (Target img)),
      content_ReadBlob = (\<lambda>d. Inr ''{}''),
      json_Unmarshal = (\<lambda>bytes. Inr \<lparr>oci_OS = ''linux'', oci_Architecture = ''amd64'',
         oci_Config = \<lparr>Entrypoint = [], Env = [], Cmd = [], User = [], WorkingDir = [],
                        ExposedPorts = [], Volumes = []\<rparr>\<rparr>),
      snapshotter_Mounts = (\<lambda>key. ([''overlay''], None)),
      snapshotter_View = (\<lambda>key parent. Inr [''view'']),
      snapshotter_Remove = (\<lambda>key. None),
      uuid_NewRandom = Inr ''rnd'',
      identity_ChainID = concat,
      oci_ReadonlyMounts = (\<lambda>mounts. mounts),
      mount_All = (\<lambda>mounts. None),
      archive_ChangesDirs = (\<lambda>fs root. ([], None)),
      client_Import = Inr [],
      image_IsUnpacked = (\<lambda>img. Inr True),
      image_Unpack = (\<lambda>img. None)\<rparr>"

text \<open>The digests of the examples.\<close>

definition digest_abc12300 :: digest where
  "digest_abc12300 = ''sha256:abc1230000000000000000000000000000000000000000000000000000000000''"

definition digest_abc12399 :: digest where
  "digest_abc12399 = ''sha256:abc1239900000000000000000000000000000000000000000000000000000000''"

definition digest_a6 :: digest where
  "digest_a6 = ''sha256:a6a6a6a6a6a6a6a6a6a6a6a6a6a6a6a6a6a6a6a6a6a6a6a6a6a6a6a6a6a6a6a6''"

definition digest_a8 :: digest where
  "digest_a8 = ''sha256:a8a8a8a8a8a8a8a8a8a8a8a8a8a8a8a8a8a8a8a8a8a8a8a8a8a8a8a8a8a8a8a8''"

definition digest_b0 :: digest where
  "digest_b0 = ''sha256:b0b0b0b0b0b0b0b0b0b0b0b0b0b0b0b0b0b0b0b0b0b0b0b0b0b0b0b0b0b0b0b0''"


definition digest_1d :: digest where
  "digest_1d = ''sha256:1d1d1d1d1d1d1d1d1d1d1d1d1d1d1d1d1d1d1d1d1d1d1d1d1d1d1d1d1d1d1d1d''"

definition digest_2e :: digest where
  "digest_2e = ''sha256:2e2e2e2e2e2e2e2e2e2e2e2e2e2e2e2e2e2e2e2e2e2e2e2e2e2e2e2e2e2e2e2e''"

text \<open>Scenarios S1 and S2: short identifiers.\<close>

definition abc123_latest :: image where
  "abc123_latest = \<lparr>Name = ''docker.io/library/abc123:latest'',
     Target = \<lparr>MediaType = ''application/vnd.oci.image.manifest.v1+json'',
               Digest = digest_abc12300, Platform = None\<rparr>\<rparr>"

definition other_latest :: image where
  "other_latest = \<lparr>Name = ''docker.io/library/other:latest'',
     Target = \<lparr>MediaType = ''application/vnd.oci.image.manifest.v1+json'',
               Digest = digest_abc12399, Platform = None\<rparr>\<rparr>"

definition retagged_latest :: image where
  "retagged_latest = \<lparr>Name = ''docker.io/library/retagged:latest'', Target = Target other_latest\<rparr>"

definition shortIDEngine :: engine where
  "shortIDEngine = quietEngine
     \<lparr>is_List := (\<lambda>filters.
        if filters = [NameEq ''docker.io/library/abc123:latest'', DigestRegex ''abc123'' 58]
        then Inr [other_latest, abc123_latest]
        else if filters = [NameEq ''docker.io/library/abc1239:latest'', DigestRegex ''abc1239'' 57]
        then Inr [other_latest, retagged_latest]
        else if filters = [NameEq ''docker.io/library/abc1:latest'', DigestRegex ''abc1'' 60]
        then Inr [other_latest, retagged_latest, abc123_latest]
        else Inr [])\<rparr>"

text \<open>Scenarios S3 and S4: an index with manifests for two platforms.\<close>

definition amd64_manifest :: descriptor where
  "amd64_manifest = \<lparr>MediaType = ''application/vnd.oci.image.manifest.v1+json'',
     Digest = digest_a6, Platform = Some linux_amd64\<rparr>"

definition arm64_manifest :: descriptor where
  "arm64_manifest = \<lparr>MediaType = ''application/vnd.oci.image.manifest.v1+json'',
     Digest = digest_a8, Platform = Some linux_arm64\<rparr>"

definition bare_manifest :: descriptor where
  "bare_manifest = \<lparr>MediaType = ''application/vnd.oci.image.manifest.v1+json'',
     Digest = digest_b0, Platform = None\<rparr>"


definition foo_tag :: image where
  "foo_tag = \<lparr>Name = ''docker.io/library/foo:tag'',
     Target = \<lparr>MediaType = ''application/vnd.oci.image.index.v1+json'',
               Digest = digest_1d, Platform = None\<rparr>\<rparr>"

definition trimmed_index :: descriptor where
  "trimmed_index = \<lparr>MediaType = ''application/vnd.oci.image.index.v1+json'',
     Digest = digest_2e, Platform = None\<rparr>"

definition fullIndexEngine :: engine where
  "fullIndexEngine = quietEngine
     \<lparr>ParseAnyReference := (\<lambda>s. if s = ''foo:tag''
                                  then Inr (Named ''docker.io/library/foo'' (Some ''tag''))
                                  else Inr (Named (''docker.io/library/'' @ s) None)),
      ParseNamed := (\<lambda>s. if s = ''docker.io/library/foo:tag''
                           then Inr (Named ''docker.io/library/foo'' (Some ''tag''))
                           else Inl (ErrNew ''repository name must be canonical'')),
      is_Get := (\<lambda>n. if n = ''docker.io/library/foo:tag'' then Inr foo_tag
                      else Inl (ErrNotFound ''image not found'')),
      images_Children := (\<lambda>d. if d = Target foo_tag then Inr [amd64_manifest, arm64_manifest]
                                else Inr []),
      images_Platforms := (\<lambda>d. if d = Target foo_tag then Inr [linux_amd64, linux_arm64]
                                 else Inr [])\<rparr>"

text \<open>
  The blob of the arm64 manifest is absent, and the converter stores the source record
  under the target name with a trimmed index as its target.
\<close>

definition partialIndexEngine :: engine where
  "partialIndexEngine = fullIndexEngine
     \<lparr>store_ReaderAt := (\<lambda>d. if d = arm64_manifest then Some (ErrNotFound ''blob not found'')
                               else None),
      converter_Convert := (\<lambda>dst src ps. Converted \<lparr>Name = dst, Target = trimmed_index\<rparr>)\<rparr>"

definition leakyEngine :: engine where
  "leakyEngine = partialIndexEngine\<lparr>is_Delete := (\<lambda>n. Some (ErrNew ''context canceled''))\<rparr>"


text \<open>An index with a manifest child that has no platform; every blob is present.\<close>

definition barePlatformEngine :: engine where
  "barePlatformEngine = fullIndexEngine
     \<lparr>images_Children := (\<lambda>d. if d = Target foo_tag then Inr [amd64_manifest, bare_manifest]
                                else Inr [])\<rparr>"



text \<open>A store with one single-platform image, \<^verbatim>\<open>other:latest\<close>.\<close>

definition manifestEngine :: engine where
  "manifestEngine = quietEngine
     \<lparr>ParseNamed := (\<lambda>s. if s = ''docker.io/library/other:latest''
                           then Inr (Named ''docker.io/library/other'' (Some ''latest''))
                           else Inl (ErrNew ''repository name must be canonical'')),
      is_Get := (\<lambda>n. if n = ''docker.io/library/other:latest'' then Inr other_latest
                      else Inl (ErrNotFound ''image not found''))\<rparr>"

text \<open>
  A store whose only record is a dangling image, found by its digest; its name is not a
  canonical reference.
\<close>

definition dangling :: image where
  "dangling = \<lparr>Name = ''moby-dangling@'' @ digest_b0,
     Target = \<lparr>MediaType = ''application/vnd.oci.image.manifest.v1+json'',
               Digest = digest_b0, Platform = None\<rparr>\<rparr>"

definition danglingEngine :: engine where
  "danglingEngine = quietEngine
     \<lparr>ParseAnyReference := (\<lambda>s. if s = ''busybox@'' @ digest_b0 then Inr (Digested digest_b0)
                                  else Inr (Named (''docker.io/library/'' @ s) None)),
      is_List := (\<lambda>filters. if filters = [DigestEq digest_b0] then Inr [dangling] else Inr [])\<rparr>"

text \<open>The identifier drawn in every iteration of an export.\<close>

definition sameUuid :: "nat \<Rightarrow> string" where
  "sameUuid k = ''U''"

text \<open>
  A record whose only platform is linux/arm64, found by its name, by its digest and by
  the short form of its digest.
\<close>

definition arm_only :: image where
  "arm_only = \<lparr>Name = ''docker.io/library/arm:latest'',
     Target = \<lparr>MediaType = ''application/vnd.oci.image.manifest.v1+json'',
               Digest = digest_a8, Platform = None\<rparr>\<rparr>"

definition armOnlyEngine :: engine where
  "armOnlyEngine = quietEngine
     \<lparr>ParseAnyReference := (\<lambda>s. if s = ''arm@'' @ digest_a8 then Inr (Digested digest_a8)
                                  else Inr (Named (''docker.io/library/'' @ s) None)),
      is_List := (\<lambda>filters.
        if filters = [DigestEq digest_a8]
           \<or> filters = [NameEq ''docker.io/library/a8a8:latest'', DigestRegex ''a8a8'' 60]
        then Inr [arm_only] else Inr []),
      is_Get := (\<lambda>n. if n = ''docker.io/library/arm:latest'' then Inr arm_only
                      else Inl (ErrNotFound ''image not found'')),
      images_Platforms := (\<lambda>d. if d = Target arm_only then Inr [linux_arm64] else Inr [])\<rparr>"

text \<open>Scenario S6: a container on the image \<^verbatim>\<open>foo:tag\<close>.\<close>

definition c1 :: Container where
  "c1 = \<lparr>ID = ''c1'', Config_Image = ''foo:tag'', Config_Platform = linux_amd64\<rparr>"

definition diffFailsEngine :: engine where
  "diffFailsEngine = fullIndexEngine
     \<lparr>archive_ChangesDirs := (\<lambda>fs root. ([], Some (ErrNew ''walk failed'')))\<rparr>"

definition removeFailsEngine :: engine where
  "removeFailsEngine = diffFailsEngine
     \<lparr>snapshotter_Remove := (\<lambda>key. Some (ErrNew ''snapshot busy''))\<rparr>"

definition mountsFailEngine :: engine where
  "mountsFailEngine = fullIndexEngine
     \<lparr>snapshotter_Mounts := (\<lambda>key. ([], Some (ErrNew ''snapshot does not exist'')))\<rparr>"

text \<open>An import of two images that are not unpacked; unpacking the first fails.\<close>

definition importEngine :: engine where
  "importEngine = quietEngine
     \<lparr>client_Import := Inr [abc123_latest, other_latest],
      image_IsUnpacked := (\<lambda>img. Inr False),
      image_Unpack := (\<lambda>img. if img = abc123_latest then Some (ErrNew ''no space left on device'')
                               else None)\<rparr>"

text \<open>The same import on a full disk: unpacking either image fails.\<close>

definition diskFullEngine :: engine where
  "diskFullEngine = importEngine
     \<lparr>image_Unpack := (\<lambda>img. Some (ErrNew ''no space left on device''))\<rparr>"

section \<open>Properties of the RootFS child relation\<close>

lemma diffIDsChildOf_strict_prefix:
  "diffIDsChildOf cs ps \<longleftrightarrow> strict_prefix ps cs"
  by (induction cs ps rule: diffIDsChildOf.induct) auto

lemma diffIDsChildOf_irrefl: "\<not> diffIDsChildOf xs xs"
  by (simp add: diffIDsChildOf_strict_prefix)

lemma diffIDsChildOf_take:
  "diffIDsChildOf cs ps \<Longrightarrow> length ps < length cs \<and> take (length ps) cs = ps"
  by (induction cs ps rule: diffIDsChildOf.induct) auto

text \<open>The seven rows of \<^verbatim>\<open>TestIsRootfsChildOf\<close>, in the order of the table.\<close>

lemma TestIsRootfsChildOf:
  "isRootfsChildOf (toRootfs ''ABC'') (toRootfs ''AB'') = True"
  "isRootfsChildOf (toRootfs ''XYZAB'') (toRootfs ''XYZ'') = True"
  "isRootfsChildOf (toRootfs ''XYZ'') (toRootfs ''XYZ'') = False"
  "isRootfsChildOf (toRootfs ''ABD'') (toRootfs ''ABC'') = False"
  "isRootfsChildOf (toRootfs ''XYZ'') (toRootfs ''ABC'') = False"
  "isRootfsChildOf (toRootfs ''AB'') (toRootfs ''ABC'') = False"
  "isRootfsChildOf (toRootfs ''XYZAB'') (toRootfs ''AB'') = False"
  by (simp_all add: isRootfsChildOf_def toRootfs_def)

text \<open>
  Claim C9. For every pair of rootfs values, \<^verbatim>\<open>isRootfsChildOf child parent\<close> is true
  exactly when the parent's diff-ID list is a strict prefix of the child's diff-ID list;
  no rootfs is a child of itself; and a true result means the child is longer than the
  parent and its first \<open>length parent\<close> entries are the parent's entries.
\<close>

theorem isRootfsChildOf_iff_strict_prefix:
  "(isRootfsChildOf child parent \<longleftrightarrow> strict_prefix (DiffIDs parent) (DiffIDs child))
   \<and> \<not> isRootfsChildOf a a
   \<and> (isRootfsChildOf child parent \<longrightarrow>
        length (DiffIDs parent) < length (DiffIDs child)
        \<and> take (length (DiffIDs parent)) (DiffIDs child) = DiffIDs parent)"
  unfolding isRootfsChildOf_def
  using diffIDsChildOf_strict_prefix diffIDsChildOf_irrefl diffIDsChildOf_take
  by blast

theorem isRootfsChildOf_iff_strict_prefix_witness:
  "isRootfsChildOf (toRootfs ''ABC'') (toRootfs ''AB'')
   \<and> strict_prefix (DiffIDs (toRootfs ''AB'')) (DiffIDs (toRootfs ''ABC''))
   \<and> length (DiffIDs (toRootfs ''AB'')) < length (DiffIDs (toRootfs ''ABC''))
   \<and> take (length (DiffIDs (toRootfs ''AB''))) (DiffIDs (toRootfs ''ABC'')) = DiffIDs (toRootfs ''AB'')"
proof -
  have c: "isRootfsChildOf (toRootfs ''ABC'') (toRootfs ''AB'')"
    by (simp add: isRootfsChildOf_def toRootfs_def)
  show ?thesis
    using c isRootfsChildOf_iff_strict_prefix [of "toRootfs ''ABC''" "toRootfs ''AB''" "toRootfs ''AB''"]
    by blast
qed

section \<open>Properties of image resolution\<close>

text \<open>The loop over the listed records returns the first record named \<open>ref\<close>, or else all the digests.\<close>

lemma collectDigests_find:
  "collectDigests ref imgs D =
     (case find (\<lambda>img. Name img = ref) imgs of
        Some img \<Rightarrow> Inl img
      | None \<Rightarrow> Inr (D \<union> (\<lambda>img. Digest (Target img)) ` set imgs))"
  by (induction imgs arbitrary: D) (auto split: option.splits)

text \<open>
  Claim C3. Short-ID resolution: the reference parser returned a name (no digest), the input
  matches \<^verbatim>\<open>^[a-f0-9]{4,64}$\<close>, and \<^verbatim>\<open>List\<close> returned two or more records. If some
  record's name equals the candidate named form \<open>ref\<close> (the name with \<^verbatim>\<open>:latest\<close>
  appended when it has no tag), the first such record is returned; otherwise, if the records
  have exactly one distinct target digest, the first listed record is returned; otherwise
  the result is the not-found error "ambiguous reference". The platform plays no part.
\<close>

theorem resolveImage_shortID_many:
  assumes parsed: "ParseAnyReference i refOrID = Inr (Named n t)"
    and short: "shortID refOrID"
    and ref: "ref = String (TagNameOnly (Named n t))"
    and listed: "is_List i [NameEq ref, DigestRegex refOrID (64 - length refOrID)] = Inr imgs"
    and many: "2 \<le> length imgs"
  shows "resolveImage i refOrID platform =
           (case find (\<lambda>img. Name img = ref) imgs of
              Some img \<Rightarrow> Inr img
            | None \<Rightarrow>
                if card ((\<lambda>img. Digest (Target img)) ` set imgs) = 1 then Inr (hd imgs)
                else Inl (NotFound (ErrNew ''ambiguous reference'')))"
proof -
  obtain img0 rest where imgs: "imgs = img0 # rest" and rest: "rest \<noteq> []"
    using many by (cases imgs) (auto simp: Suc_le_eq)
  have pos: "0 < card ((\<lambda>img. Digest (Target img)) ` set imgs)"
    by (simp add: imgs card_gt_0_iff)
  show ?thesis
    using parsed short listed [unfolded ref] rest pos
    by (auto simp: resolveImage_def Let_def imgs ref collectDigests_find split: option.splits)
qed

theorem resolveImage_shortID_many_witness:
  "ParseAnyReference shortIDEngine ''abc123'' = Inr (Named ''docker.io/library/abc123'' None)
   \<and> shortID ''abc123''
   \<and> is_List shortIDEngine
        [NameEq ''docker.io/library/abc123:latest'', DigestRegex ''abc123'' (64 - length ''abc123'')]
       = Inr [other_latest, abc123_latest]
   \<and> 2 \<le> length [other_latest, abc123_latest]
   \<and> resolveImage shortIDEngine ''abc123'' None = Inr abc123_latest"
proof -
  have parsed: "ParseAnyReference shortIDEngine ''abc123'' = Inr (Named ''docker.io/library/abc123'' None)"
    by (simp add: shortIDEngine_def quietEngine_def)
  have short: "shortID ''abc123''"
    by (simp add: shortID_def)
  have ref: "''docker.io/library/abc123:latest''
      = String (TagNameOnly (Named ''docker.io/library/abc123'' None))"
    by simp
  have listed: "is_List shortIDEngine
      [NameEq ''docker.io/library/abc123:latest'', DigestRegex ''abc123'' (64 - length ''abc123'')]
      = Inr [other_latest, abc123_latest]"
    by (simp add: shortIDEngine_def quietEngine_def)
  have many: "2 \<le> length [other_latest, abc123_latest]"
    by simp
  show ?thesis
    using resolveImage_shortID_many [OF parsed short ref listed many, of None] parsed short listed
    by (simp add: other_latest_def abc123_latest_def)
qed

text \<open>Scenario S1, S2 and the duplicated-tag case.\<close>

lemma resolveImage_scenarios:
  "resolveImage shortIDEngine ''abc123'' None = Inr abc123_latest"
  "resolveImage shortIDEngine ''abc1'' None = Inl (NotFound (ErrNew ''ambiguous reference''))"
  "resolveImage shortIDEngine ''abc1239'' None = Inr other_latest"
  by (simp_all add: resolveImage_def shortID_def shortIDEngine_def quietEngine_def
        other_latest_def abc123_latest_def retagged_latest_def
        digest_abc12300_def digest_abc12399_def)

text \<open>
  The lookup by name applies the platform filter: the record is accepted iff the comparer
  matches one of the platforms of its target, and is rejected otherwise.
\<close>

lemma resolveImage_named_platform:
  assumes parsed: "ParseAnyReference i refOrID = Inr (Named n t)"
    and notshort: "\<not> shortID refOrID"
    and got: "is_Get i (String (TagNameOnly (Named n t))) = Inr img"
  shows "resolveImage i refOrID (Some p) =
           (case images_Platforms i (Target img) of
              Inl err \<Rightarrow> Inl err
            | Inr imgPlatforms \<Rightarrow>
                if list_ex (platforms_Only i p) imgPlatforms then Inr img
                else Inl (NotFound (ErrNew (''platform '' @ platforms_Format i p @ '' not supported''))))"
  using parsed notshort got
  by (simp add: resolveImage_def Let_def split: sum.splits)

text \<open>The digested and the short-ID lookups return their record whatever the platform is.\<close>

lemma resolveImage_digested_ignores_platform:
  assumes "ParseAnyReference i refOrID = Inr (Digested dgst)"
  shows "resolveImage i refOrID platform = resolveImage i refOrID None"
  using assms by (simp add: resolveImage_def)

lemma resolveImage_shortID_ignores_platform:
  assumes "shortID refOrID"
  shows "resolveImage i refOrID platform = resolveImage i refOrID None"
  using assms
  by (simp add: resolveImage_def Let_def split: sum.splits reference.splits)

text \<open>
  Claim C4 at the failing input. The store holds one record whose target has the single
  platform linux/arm64, and the constraint is linux/amd64, which matches no platform of the
  target. Resolved by its name the record is rejected with "platform linux/amd64 not
  supported"; resolved by its digest, or by the short form of its digest, the same record
  is accepted: those two branches return before the platform filter.
\<close>

theorem resolveImage_platform_unchecked:
  "images_Platforms armOnlyEngine (Target arm_only) = Inr [linux_arm64]
   \<and> \<not> platforms_Only armOnlyEngine linux_amd64 linux_arm64
   \<and> resolveImage armOnlyEngine ''arm'' (Some linux_amd64)
       = Inl (NotFound (ErrNew ''platform linux/amd64 not supported''))
   \<and> resolveImage armOnlyEngine (''arm@'' @ digest_a8) (Some linux_amd64) = Inr arm_only
   \<and> resolveImage armOnlyEngine ''a8a8'' (Some linux_amd64) = Inr arm_only"
  by (simp add: resolveImage_def shortID_def armOnlyEngine_def quietEngine_def arm_only_def
        linux_amd64_def linux_arm64_def digest_a8_def)

section \<open>Properties of the change computation\<close>

text \<open>
  Claim C1 at the failing input: the directory diff returns an error and the removal of the
  view succeeds. Both mounts are released and the view is removed, and then the deferred
  function panics on \<^verbatim>\<open>uerr.Error()\<close> with \<open>uerr\<close> nil: no error is returned.
\<close>

theorem Changes_diff_error_panics:
  "Changes diffFailsEngine c1 =
     (Panic,
      [EvMounts ''c1'', EvGetImage ''foo:tag'', EvRootFS, EvNewRandom, EvView ''rnd'' [],
       EvMount [''overlay''], EvMount [''view''], EvChangesDirs [''overlay''] [''view''],
       EvUnmount [''view''], EvUnmount [''overlay''], EvRemove ''rnd''])
   \<and> archive_ChangesDirs diffFailsEngine [''overlay''] [''view''] = ([], Some (ErrNew ''walk failed''))
   \<and> snapshotter_Remove diffFailsEngine ''rnd'' = None"
  by (simp add: Changes_def Changes_deferred_def WithTempMount_def getImage_def resolveImage_def
        shortID_def Let_def diffFailsEngine_def fullIndexEngine_def quietEngine_def c1_def
        foo_tag_def linux_amd64_def linux_arm64_def)

text \<open>When the removal fails as well, its message is wrapped around the diff error.\<close>

lemma Changes_diff_and_remove_error:
  "fst (Changes removeFailsEngine c1) =
     Return ([], Some (Errorf_w ''snapshot busy'' (ErrNew ''walk failed'')))"
  by (simp add: Changes_def Changes_deferred_def WithTempMount_def getImage_def resolveImage_def
        shortID_def Let_def removeFailsEngine_def diffFailsEngine_def fullIndexEngine_def
        quietEngine_def c1_def foo_tag_def linux_amd64_def linux_arm64_def)

text \<open>
  Claim C2 at the failing input: \<^verbatim>\<open>Mounts\<close> returns an error, the check that follows reads
  the unassigned \<open>err\<close>, and the call goes on to resolve the image, create the view,
  mount, diff and remove the view; it returns no error.
\<close>

theorem Changes_Mounts_error_ignored:
  "snapshotter_Mounts mountsFailEngine (ID c1) = ([], Some (ErrNew ''snapshot does not exist''))
   \<and> Changes mountsFailEngine c1 =
     (Return ([], None),
      [EvMounts ''c1'', EvGetImage ''foo:tag'', EvRootFS, EvNewRandom, EvView ''rnd'' [],
       EvMount [], EvMount [''view''], EvChangesDirs [] [''view''],
       EvUnmount [''view''], EvUnmount [], EvRemove ''rnd''])"
  by (simp add: Changes_def Changes_deferred_def WithTempMount_def getImage_def resolveImage_def
        shortID_def Let_def mountsFailEngine_def fullIndexEngine_def quietEngine_def c1_def
        foo_tag_def linux_amd64_def linux_arm64_def)

text \<open>
  The deferred function panics exactly when the call is about to return an error and the
  removal of the view succeeded.
\<close>

lemma Changes_deferred_panics_iff:
  "Changes_deferred i rnd (changes, err) = Panic \<longleftrightarrow> err \<noteq> None \<and> snapshotter_Remove i rnd = None"
  by (auto simp: Changes_deferred_def Let_def split: option.splits)

text \<open>
  No step of \<^verbatim>\<open>Changes\<close> reads the error that \<^verbatim>\<open>Mounts\<close> returned: erasing it changes
  nothing.
\<close>

lemma resolveImage_Mounts_irrelevant:
  "resolveImage (i\<lparr>snapshotter_Mounts := m\<rparr>) refOrID platform = resolveImage i refOrID platform"
  by (simp add: resolveImage_def
        cong: sum.case_cong reference.case_cong list.case_cong option.case_cong if_cong)

lemma getImage_Mounts_irrelevant:
  "getImage (i\<lparr>snapshotter_Mounts := m\<rparr>) refOrID platform = getImage i refOrID platform"
  by (simp add: getImage_def resolveImage_Mounts_irrelevant cong: sum.case_cong)

lemma WithTempMount_Mounts_irrelevant:
  "WithTempMount (i\<lparr>snapshotter_Mounts := m\<rparr>) = WithTempMount i"
  by (intro ext) (simp add: WithTempMount_def)

lemma Changes_deferred_Mounts_irrelevant:
  "Changes_deferred (i\<lparr>snapshotter_Mounts := m\<rparr>) rnd res = Changes_deferred i rnd res"
  by (simp add: Changes_deferred_def)

lemma Changes_Mounts_error_irrelevant:
  "Changes (i\<lparr>snapshotter_Mounts := (\<lambda>key. (fst (snapshotter_Mounts i key), None))\<rparr>) container
     = Changes i container"
  by (simp add: Changes_def getImage_Mounts_irrelevant WithTempMount_Mounts_irrelevant
       Changes_deferred_Mounts_irrelevant Let_def split_beta
       cong: sum.case_cong prod.case_cong)

section \<open>Properties of the export planner\<close>

text \<open>
  The presence probe, when every manifest child has a platform and its blob is either
  present or reported not found: the loop ends with the platforms of the absent and of
  the present manifests. With a platform missing on a manifest child it panics.
\<close>

lemma manifestPlatforms_Nil [simp]: "manifestPlatforms i P [] = []"
  by (simp add: manifestPlatforms_def map_filter_simps)

lemma manifestPlatforms_Cons:
  "manifestPlatforms i P (child # children) =
     (if images_IsManifestType i (MediaType child) \<and> P child
      then (case Platform child of None \<Rightarrow> manifestPlatforms i P children
            | Some p \<Rightarrow> p # manifestPlatforms i P children)
      else manifestPlatforms i P children)"
  by (simp add: manifestPlatforms_def map_filter_simps split: option.splits)

lemma blob_present_not_absent: "blobPresent i child \<Longrightarrow> \<not> blobAbsent i child"
  by (simp add: blobPresent_def blobAbsent_def)

lemma probeChildren_Probed:
  assumes "\<forall>child\<in>set children. images_IsManifestType i (MediaType child) \<longrightarrow>
             (blobPresent i child \<or> blobAbsent i child) \<and> Platform child \<noteq> None"
  shows "probeChildren i children missing present =
           Probed (missing @ manifestPlatforms i (blobAbsent i) children)
                  (present @ manifestPlatforms i (blobPresent i) children)"
  using assms
proof (induction children arbitrary: missing present)
  case Nil
  then show ?case by simp
next
  case (Cons child children)
  show ?case
  proof (cases "images_IsManifestType i (MediaType child)")
    case False
    with Cons show ?thesis by (simp add: manifestPlatforms_Cons)
  next
    case True
    with Cons.prems obtain p where p: "Platform child = Some p"
      and pa: "blobPresent i child \<or> blobAbsent i child" by auto
    from pa show ?thesis
    proof
      assume "blobPresent i child"
      with True p Cons show ?thesis
        by (simp add: manifestPlatforms_Cons blob_present_not_absent) (simp add: blobPresent_def)
    next
      assume a: "blobAbsent i child"
      then have "\<not> blobPresent i child" using blob_present_not_absent by blast
      with a True p Cons show ?thesis
        by (auto simp: manifestPlatforms_Cons blobAbsent_def blobPresent_def split: option.splits)
    qed
  qed
qed

lemma probeChildren_Panic:
  assumes "\<forall>child\<in>set children. images_IsManifestType i (MediaType child) \<longrightarrow>
             blobPresent i child \<or> blobAbsent i child"
    and "\<exists>child\<in>set children. images_IsManifestType i (MediaType child) \<and> Platform child = None"
  shows "probeChildren i children missing present = ProbePanic"
  using assms
proof (induction children arbitrary: missing present)
  case Nil
  then show ?case by simp
next
  case (Cons child children)
  show ?case
  proof (cases "images_IsManifestType i (MediaType child) \<and> Platform child = None")
    case True
    with Cons.prems(1) show ?thesis
      by (auto simp: blobPresent_def blobAbsent_def split: option.splits)
  next
    case False
    with Cons.prems have ex: "\<exists>c\<in>set children. images_IsManifestType i (MediaType c) \<and> Platform c = None"
      and all: "\<forall>c\<in>set children. images_IsManifestType i (MediaType c) \<longrightarrow> blobPresent i c \<or> blobAbsent i c"
      by auto
    have rec: "\<And>m p. probeChildren i children m p = ProbePanic"
      using Cons.IH [OF all ex] .
    from Cons.prems(1) have here: "images_IsManifestType i (MediaType child) \<longrightarrow> blobPresent i child \<or> blobAbsent i child"
      by simp
    with False show ?thesis
      by (auto simp: rec blobPresent_def blobAbsent_def split: option.splits)
  qed
qed


lemma manifestPlatforms_empty:
  assumes "\<forall>child\<in>set children. images_IsManifestType i (MediaType child) \<longrightarrow> \<not> P child"
  shows "manifestPlatforms i P children = []"
  using assms by (induction children) (auto simp: manifestPlatforms_Cons)

text \<open>
  Claim C5, amended. An export request whose reference resolves to a record whose name
  parses as a named reference, and whose target is not an index, or is an index all of
  whose manifest children carry a platform and have their blob present locally: the
  instruction is export-by-name on the original image, and no temporary image is created.
\<close>

theorem optForImageExport_all_present:
  assumes resolved: "resolveImage i name None = Inr img"
    and parsed: "ParseNamed i (Name img) = Inr ref"
    and target: "\<not> images_IsIndexType i (MediaType (Target img))
       \<or> (images_Children i (Target img) = Inr children
          \<and> (\<forall>child\<in>set children. images_IsManifestType i (MediaType child) \<longrightarrow>
                blobPresent i child \<and> Platform child \<noteq> None))"
  shows "optForImageExport i uuid name = Return (Some (WithImage (Name img)), None, None)"
proof (cases "images_IsIndexType i (MediaType (Target img))")
  case False
  with resolved parsed show ?thesis by (simp add: optForImageExport_def)
next
  case True
  with target have children: "images_Children i (Target img) = Inr children"
    and present: "\<forall>child\<in>set children. images_IsManifestType i (MediaType child) \<longrightarrow>
                blobPresent i child \<and> Platform child \<noteq> None" by auto
  have noabs: "manifestPlatforms i (blobAbsent i) children = []"
    using present blob_present_not_absent by (intro manifestPlatforms_empty) blast
  have "probeChildren i children [] [] =
          Probed ([] @ manifestPlatforms i (blobAbsent i) children)
                 ([] @ manifestPlatforms i (blobPresent i) children)"
    using present by (intro probeChildren_Probed) blast
  with resolved parsed True children noabs show ?thesis
    by (simp add: optForImageExport_def)
qed





text \<open>
  Claim C10. For a resolved index whose children can be enumerated and whose probes find
  each manifest blob present or not found: \<^verbatim>\<open>optForImageExport\<close> panics on the nil
  platform exactly when some manifest child has no platform; it returns exactly under the
  precondition that all manifest children have one.
\<close>

theorem optForImageExport_panics_iff:
  assumes resolved: "resolveImage i name None = Inr img"
    and parsed: "ParseNamed i (Name img) = Inr ref"
    and index: "images_IsIndexType i (MediaType (Target img))"
    and children: "images_Children i (Target img) = Inr children"
    and probes: "\<forall>child\<in>set children. images_IsManifestType i (MediaType child) \<longrightarrow>
                   blobPresent i child \<or> blobAbsent i child"
  shows "optForImageExport i uuid name = Panic \<longleftrightarrow>
           (\<exists>child\<in>set children. images_IsManifestType i (MediaType child) \<and> Platform child = None)"
proof
  assume ex: "\<exists>child\<in>set children. images_IsManifestType i (MediaType child) \<and> Platform child = None"
  have "probeChildren i children [] [] = ProbePanic"
    using probes ex by (rule probeChildren_Panic)
  with resolved parsed index children show "optForImageExport i uuid name = Panic"
    by (simp add: optForImageExport_def)
next
  assume panic: "optForImageExport i uuid name = Panic"
  show "\<exists>child\<in>set children. images_IsManifestType i (MediaType child) \<and> Platform child = None"
  proof (rule ccontr)
    assume "\<not> ?thesis"
    with probes have "\<forall>child\<in>set children. images_IsManifestType i (MediaType child) \<longrightarrow>
        (blobPresent i child \<or> blobAbsent i child) \<and> Platform child \<noteq> None" by auto
    then have "probeChildren i children [] [] =
          Probed ([] @ manifestPlatforms i (blobAbsent i) children)
                 ([] @ manifestPlatforms i (blobPresent i) children)"
      by (intro probeChildren_Probed)
    with resolved parsed index children panic show False
      by (simp add: optForImageExport_def Let_def split: if_splits converted.splits)
  qed
qed

text \<open>
  With every manifest blob present the planner never returns a temporary image, whatever
  the names and platforms are: it panics on a missing platform, returns an error without
  an instruction, or returns the export-by-name instruction.
\<close>

lemma probeChildren_all_present:
  assumes "\<forall>child\<in>set children. images_IsManifestType i (MediaType child) \<longrightarrow> blobPresent i child"
  shows "probeChildren i children missing present = ProbePanic
         \<or> (\<exists>ps. probeChildren i children missing present = Probed missing ps)"
  using assms
  by (induction children arbitrary: present) (auto simp: blobPresent_def split: option.splits)

lemma optForImageExport_all_present_no_tmpImage:
  assumes resolved: "resolveImage i name None = Inr img"
    and target: "\<not> images_IsIndexType i (MediaType (Target img))
       \<or> (images_Children i (Target img) = Inr children
          \<and> (\<forall>child\<in>set children. images_IsManifestType i (MediaType child) \<longrightarrow>
                blobPresent i child))"
  shows "optForImageExport i uuid name = Panic
         \<or> (\<exists>err. optForImageExport i uuid name = Return (None, None, Some err))
         \<or> optForImageExport i uuid name = Return (Some (WithImage (Name img)), None, None)"
proof (cases "ParseNamed i (Name img)")
  case (Inl err)
  with resolved show ?thesis by (simp add: optForImageExport_def)
next
  case (Inr ref)
  show ?thesis
  proof (cases "images_IsIndexType i (MediaType (Target img))")
    case False
    with resolved Inr show ?thesis by (simp add: optForImageExport_def)
  next
    case True
    with target have children: "images_Children i (Target img) = Inr children"
      and present: "\<forall>child\<in>set children. images_IsManifestType i (MediaType child) \<longrightarrow>
                blobPresent i child" by auto
    from probeChildren_all_present [OF present, of "[]" "[]"]
    show ?thesis
      using resolved Inr True children by (auto simp: optForImageExport_def)
  qed
qed

theorem optForImageExport_all_present_witness:
  "resolveImage fullIndexEngine ''foo:tag'' None = Inr foo_tag
   \<and> ParseNamed fullIndexEngine (Name foo_tag) = Inr (Named ''docker.io/library/foo'' (Some ''tag''))
   \<and> images_IsIndexType fullIndexEngine (MediaType (Target foo_tag))
   \<and> images_Children fullIndexEngine (Target foo_tag) = Inr [amd64_manifest, arm64_manifest]
   \<and> blobPresent fullIndexEngine amd64_manifest \<and> blobPresent fullIndexEngine arm64_manifest
   \<and> optForImageExport fullIndexEngine ''U'' ''foo:tag''
       = Return (Some (WithImage ''docker.io/library/foo:tag''), None, None)
   \<and> resolveImage manifestEngine ''other'' None = Inr other_latest
   \<and> \<not> images_IsIndexType manifestEngine (MediaType (Target other_latest))
   \<and> optForImageExport manifestEngine ''U'' ''other''
       = Return (Some (WithImage ''docker.io/library/other:latest''), None, None)"
proof -
  have resolved': "resolveImage manifestEngine ''other'' None = Inr other_latest"
    by (simp add: resolveImage_def shortID_def manifestEngine_def quietEngine_def)
  have parsed': "ParseNamed manifestEngine (Name other_latest)
      = Inr (Named ''docker.io/library/other'' (Some ''latest''))"
    by (simp add: manifestEngine_def quietEngine_def other_latest_def)
  have noindex: "\<not> images_IsIndexType manifestEngine (MediaType (Target other_latest))"
    by (simp add: manifestEngine_def quietEngine_def IsIndexType_def other_latest_def)
  have target': "\<not> images_IsIndexType manifestEngine (MediaType (Target other_latest))
       \<or> (images_Children manifestEngine (Target other_latest) = Inr []
          \<and> (\<forall>child\<in>set []. images_IsManifestType manifestEngine (MediaType child) \<longrightarrow>
                blobPresent manifestEngine child \<and> Platform child \<noteq> None))"
    using noindex by simp
  have plain: "optForImageExport manifestEngine ''U'' ''other'' =
      Return (Some (WithImage (Name other_latest)), None, None)"
    using optForImageExport_all_present [OF resolved' parsed' target'] .
  have resolved: "resolveImage fullIndexEngine ''foo:tag'' None = Inr foo_tag"
    by (simp add: resolveImage_def shortID_def fullIndexEngine_def quietEngine_def)
  have parsed: "ParseNamed fullIndexEngine (Name foo_tag)
      = Inr (Named ''docker.io/library/foo'' (Some ''tag''))"
    by (simp add: fullIndexEngine_def quietEngine_def foo_tag_def)
  have index: "images_IsIndexType fullIndexEngine (MediaType (Target foo_tag))"
    by (simp add: fullIndexEngine_def quietEngine_def IsIndexType_def foo_tag_def)
  have children: "images_Children fullIndexEngine (Target foo_tag) = Inr [amd64_manifest, arm64_manifest]"
    by (simp add: fullIndexEngine_def quietEngine_def)
  have present: "blobPresent fullIndexEngine amd64_manifest" "blobPresent fullIndexEngine arm64_manifest"
    by (simp_all add: blobPresent_def fullIndexEngine_def quietEngine_def)
  have platforms: "Platform amd64_manifest \<noteq> None" "Platform arm64_manifest \<noteq> None"
    by (simp_all add: amd64_manifest_def arm64_manifest_def)
  have target: "\<not> images_IsIndexType fullIndexEngine (MediaType (Target foo_tag))
       \<or> (images_Children fullIndexEngine (Target foo_tag) = Inr [amd64_manifest, arm64_manifest]
          \<and> (\<forall>child\<in>set [amd64_manifest, arm64_manifest]. images_IsManifestType fullIndexEngine (MediaType child) \<longrightarrow>
                blobPresent fullIndexEngine child \<and> Platform child \<noteq> None))"
    using children present platforms by simp
  have "optForImageExport fullIndexEngine ''U'' ''foo:tag'' = Return (Some (WithImage (Name foo_tag)), None, None)"
    using optForImageExport_all_present [OF resolved parsed target] .
  then show ?thesis
    using resolved parsed index children present resolved' noindex plain
    by (simp add: foo_tag_def other_latest_def)
qed

text \<open>
  Claim C5, as stated, fails. A dangling image, resolved by its digest, has a target that
  is not an index, but its stored name is not a canonical reference: the planner returns
  the error "failed to parse image reference" and no instruction. And on an index whose
  manifest blobs are all present, a manifest child without a platform makes the planner
  panic.
\<close>

theorem optForImageExport_all_present_failures:
  "resolveImage danglingEngine (''busybox@'' @ digest_b0) None = Inr dangling
   \<and> \<not> images_IsIndexType danglingEngine (MediaType (Target dangling))
   \<and> optForImageExport danglingEngine ''U'' (''busybox@'' @ digest_b0)
       = Return (None, None,
           Some (Wrap (ErrNew ''repository name must be canonical'') ''failed to parse image reference''))
   \<and> resolveImage barePlatformEngine ''foo:tag'' None = Inr foo_tag
   \<and> images_IsIndexType barePlatformEngine (MediaType (Target foo_tag))
   \<and> images_Children barePlatformEngine (Target foo_tag) = Inr [amd64_manifest, bare_manifest]
   \<and> store_ReaderAt barePlatformEngine amd64_manifest = None
   \<and> store_ReaderAt barePlatformEngine bare_manifest = None
   \<and> optForImageExport barePlatformEngine ''U'' ''foo:tag'' = Panic"
  by (simp add: optForImageExport_def resolveImage_def shortID_def IsIndexType_def IsManifestType_def
        danglingEngine_def barePlatformEngine_def fullIndexEngine_def quietEngine_def
        dangling_def foo_tag_def amd64_manifest_def bare_manifest_def digest_b0_def)



theorem optForImageExport_panics_iff_witness:
  "resolveImage barePlatformEngine ''foo:tag'' None = Inr foo_tag
   \<and> images_IsIndexType barePlatformEngine (MediaType (Target foo_tag))
   \<and> images_Children barePlatformEngine (Target foo_tag) = Inr [amd64_manifest, bare_manifest]
   \<and> blobPresent barePlatformEngine amd64_manifest \<and> blobPresent barePlatformEngine bare_manifest
   \<and> images_IsManifestType barePlatformEngine (MediaType bare_manifest) \<and> Platform bare_manifest = None
   \<and> optForImageExport barePlatformEngine ''U'' ''foo:tag'' = Panic"
proof -
  have resolved: "resolveImage barePlatformEngine ''foo:tag'' None = Inr foo_tag"
    by (simp add: resolveImage_def shortID_def barePlatformEngine_def fullIndexEngine_def quietEngine_def)
  have parsed: "ParseNamed barePlatformEngine (Name foo_tag) = Inr (Named ''docker.io/library/foo'' (Some ''tag''))"
    by (simp add: barePlatformEngine_def fullIndexEngine_def quietEngine_def foo_tag_def)
  have index: "images_IsIndexType barePlatformEngine (MediaType (Target foo_tag))"
    by (simp add: barePlatformEngine_def fullIndexEngine_def quietEngine_def IsIndexType_def foo_tag_def)
  have children: "images_Children barePlatformEngine (Target foo_tag) = Inr [amd64_manifest, bare_manifest]"
    by (simp add: barePlatformEngine_def fullIndexEngine_def quietEngine_def)
  have present: "blobPresent barePlatformEngine amd64_manifest" "blobPresent barePlatformEngine bare_manifest"
    by (simp_all add: blobPresent_def barePlatformEngine_def fullIndexEngine_def quietEngine_def)
  have bare: "images_IsManifestType barePlatformEngine (MediaType bare_manifest)" "Platform bare_manifest = None"
    by (simp_all add: barePlatformEngine_def fullIndexEngine_def quietEngine_def IsManifestType_def
          bare_manifest_def)
  have probes: "\<forall>child\<in>set [amd64_manifest, bare_manifest]. images_IsManifestType barePlatformEngine (MediaType child) \<longrightarrow>
                   blobPresent barePlatformEngine child \<or> blobAbsent barePlatformEngine child"
    using present by simp
  have "optForImageExport barePlatformEngine ''U'' ''foo:tag'' = Panic"
    using optForImageExport_panics_iff [OF resolved parsed index children probes, of "''U''"] bare
    by simp
  then show ?thesis
    using resolved index children present bare by simp
qed

section \<open>Properties of the export\<close>

text \<open>
  Running the deferred deletions appends one deletion per scheduled name, last scheduled
  first. The loop ends as the planning of the references ends, with the instructions
  planned added to the options, a deletion pushed for every temporary image in the order
  of creation, and the creations recorded.
\<close>

lemma runDeferred_eq:
  "runDeferred i ns tr = tr @ map (\<lambda>n. EvDelete n (is_Delete i n)) ns"
  by (induction ns arbitrary: tr) simp_all

lemma exportLoop_planned:
  "exportLoop i uuids k names st =
     (case planned i uuids k names of
        (os, ts, exit) \<Rightarrow>
          (exit, st\<lparr>opts := opts st @ os,
                     deferred := rev ts @ deferred st,
                     trace := trace st @ map EvTmpImage ts\<rparr>))"
proof (induction names arbitrary: k st)
  case Nil
  then show ?case by simp
next
  case (Cons imageRef names)
  show ?case
  proof (cases "optForImageExport i (uuids k) imageRef")
    case Panic
    then show ?thesis by simp
  next
    case (Return r)
    obtain newOpt tmpImage err where r: "r = (newOpt, tmpImage, err)"
      by (cases r) auto
    show ?thesis
    proof (cases err)
      case (Some e)
      with Return r show ?thesis
        by (cases tmpImage) simp_all
    next
      case None
      obtain os ts exit where rest: "planned i uuids (Suc k) names = (os, ts, exit)"
        by (cases "planned i uuids (Suc k) names") auto
      with Return r None Cons.IH [of "Suc k"] show ?thesis
        by (cases tmpImage; cases newOpt) simp_all
    qed
  qed
qed

text \<open>Deletions add no name to the store, and a deletion that succeeded removes its name for good.\<close>

lemma deletes_add_nothing:
  "n \<notin> S \<Longrightarrow> n \<notin> foldl storeStep S (map (\<lambda>n. EvDelete n (r n)) ns)"
  by (induction ns arbitrary: S) simp_all

lemma deleted_is_gone:
  "n \<in> set ns \<Longrightarrow> r n = None \<Longrightarrow> n \<notin> foldl storeStep S (map (\<lambda>n. EvDelete n (r n)) ns)"
proof (induction ns arbitrary: S)
  case Nil
  then show ?case by simp
next
  case (Cons m ns)
  show ?case
  proof (cases "n = m")
    case True
    with Cons.prems have "n \<notin> storeStep S (EvDelete m (r m))" by simp
    then show ?thesis using deletes_add_nothing [of n _ r ns] by simp
  next
    case False
    with Cons.prems have "n \<in> set ns" by simp
    from Cons.IH [OF this Cons.prems(2)] show ?thesis by simp
  qed
qed

text \<open>
  Claim C7, amended. Let the planning of the references return the instructions \<open>os\<close>
  and the temporary images \<open>ts\<close>, in the order of their creation. The export makes these
  engine calls and no others: the creations of the temporary images; then the archive
  write with the two archive-wide options followed by \<open>os\<close>, if no planning failed, and
  otherwise nothing (the call returns the error of the failing planning, or panics as it
  did); then one deletion for each temporary image, in reverse order of creation. So each
  deletion is scheduled when its image is received and is attempted on exit, on success,
  error or panic alike. The result of a deletion is discarded, and every temporary image
  whose deletion succeeded is absent from the store when the call completes.
\<close>

theorem ExportImage_deletes_temporaries:
  assumes plan: "planned i uuids 0 names = (os, ts, exit)"
  shows "ExportImage i uuids names =
           (case exit of
              Fallthrough \<Rightarrow>
                (Return (client_Export i
                   ([WithSkipNonDistributableBlobs,
                     WithPlatform (allPlatformsWithPreference platforms_Default)] @ os)),
                 map EvTmpImage ts
                 @ [EvExport ([WithSkipNonDistributableBlobs,
                               WithPlatform (allPlatformsWithPreference platforms_Default)] @ os)]
                 @ map (\<lambda>n. EvDelete n (is_Delete i n)) (rev ts))
            | ReturnErr e \<Rightarrow>
                (Return (Some e),
                 map EvTmpImage ts @ map (\<lambda>n. EvDelete n (is_Delete i n)) (rev ts))
            | Panicked \<Rightarrow>
                (Panic,
                 map EvTmpImage ts @ map (\<lambda>n. EvDelete n (is_Delete i n)) (rev ts)))
         \<and> (\<forall>n\<in>set ts. is_Delete i n = None \<longrightarrow>
               n \<notin> storeAfter S (snd (ExportImage i uuids names)))"
proof -
  let ?del = "map (\<lambda>n. EvDelete n (is_Delete i n)) (rev ts)"
  have run: "ExportImage i uuids names =
           (case exit of
              Fallthrough \<Rightarrow>
                (Return (client_Export i
                   ([WithSkipNonDistributableBlobs,
                     WithPlatform (allPlatformsWithPreference platforms_Default)] @ os)),
                 map EvTmpImage ts
                 @ [EvExport ([WithSkipNonDistributableBlobs,
                               WithPlatform (allPlatformsWithPreference platforms_Default)] @ os)]
                 @ ?del)
            | ReturnErr e \<Rightarrow> (Return (Some e), map EvTmpImage ts @ ?del)
            | Panicked \<Rightarrow> (Panic, map EvTmpImage ts @ ?del))"
    using plan by (cases exit) (simp_all add: ExportImage_def exportLoop_planned runDeferred_eq)
  obtain before where tr: "snd (ExportImage i uuids names) = before @ ?del"
    using run by (cases exit) simp_all
  have gone: "\<forall>n\<in>set ts. is_Delete i n = None \<longrightarrow>
               n \<notin> storeAfter S (snd (ExportImage i uuids names))"
  proof (intro ballI impI)
    fix n assume n: "n \<in> set ts" and ok: "is_Delete i n = None"
    have "storeAfter S (snd (ExportImage i uuids names)) = foldl storeStep (foldl storeStep S before) ?del"
      by (simp add: storeAfter_def tr)
    moreover have "n \<in> set (rev ts)" using n by simp
    ultimately show "n \<notin> storeAfter S (snd (ExportImage i uuids names))"
      using deleted_is_gone [of n "rev ts" "is_Delete i", OF _ ok] by simp
  qed
  from run gone show ?thesis by blast
qed

theorem ExportImage_deletes_temporaries_witness:
  "planned partialIndexEngine sameUuid 0 [''foo:tag''] =
     ([WithManifest trimmed_index ''docker.io/library/foo:tag''],
      [''docker.io/library/foo:tag-tmp-exportU''], Fallthrough)
   \<and> ExportImage partialIndexEngine sameUuid [''foo:tag''] =
     (Return None,
      [EvTmpImage ''docker.io/library/foo:tag-tmp-exportU'',
       EvExport [WithSkipNonDistributableBlobs,
                 WithPlatform (allPlatformsWithPreference platforms_Default),
                 WithManifest trimmed_index ''docker.io/library/foo:tag''],
       EvDelete ''docker.io/library/foo:tag-tmp-exportU'' None])
   \<and> is_Delete partialIndexEngine ''docker.io/library/foo:tag-tmp-exportU'' = None
   \<and> ''docker.io/library/foo:tag-tmp-exportU''
       \<notin> storeAfter {''docker.io/library/foo:tag''}
            (snd (ExportImage partialIndexEngine sameUuid [''foo:tag'']))"
proof -
  have plan: "planned partialIndexEngine sameUuid 0 [''foo:tag''] =
     ([WithManifest trimmed_index ''docker.io/library/foo:tag''],
      [''docker.io/library/foo:tag-tmp-exportU''], Fallthrough)"
    by (simp add: optForImageExport_def resolveImage_def shortID_def
          IsIndexType_def IsManifestType_def sameUuid_def Let_def
          partialIndexEngine_def fullIndexEngine_def quietEngine_def
          foo_tag_def amd64_manifest_def arm64_manifest_def linux_amd64_def linux_arm64_def
          digest_a6_def digest_a8_def)
  have ok: "is_Delete partialIndexEngine ''docker.io/library/foo:tag-tmp-exportU'' = None"
    by (simp add: partialIndexEngine_def fullIndexEngine_def quietEngine_def)
  have exported: "client_Export partialIndexEngine
      ([WithSkipNonDistributableBlobs, WithPlatform (allPlatformsWithPreference platforms_Default)]
       @ [WithManifest trimmed_index ''docker.io/library/foo:tag'']) = None"
    by (simp add: partialIndexEngine_def fullIndexEngine_def quietEngine_def)
  note export = ExportImage_deletes_temporaries [OF plan, of "{''docker.io/library/foo:tag''}"]
  from export [THEN conjunct1] exported have run: "ExportImage partialIndexEngine sameUuid [''foo:tag''] =
     (Return None,
      [EvTmpImage ''docker.io/library/foo:tag-tmp-exportU'',
       EvExport [WithSkipNonDistributableBlobs,
                 WithPlatform (allPlatformsWithPreference platforms_Default),
                 WithManifest trimmed_index ''docker.io/library/foo:tag''],
       EvDelete ''docker.io/library/foo:tag-tmp-exportU'' None])"
    by (simp add: ok)
  from export [THEN conjunct2] ok have gone: "''docker.io/library/foo:tag-tmp-exportU''
       \<notin> storeAfter {''docker.io/library/foo:tag''}
            (snd (ExportImage partialIndexEngine sameUuid [''foo:tag'']))"
    by simp
  from plan run ok gone show ?thesis by blast
qed

text \<open>
  Claim C7, as stated, fails. When the engine's \<^verbatim>\<open>Delete\<close> returns an error (here the
  request context is cancelled), the export completes without error and the temporary
  image name is still in the store.
\<close>

theorem ExportImage_failed_delete_leaks:
  "ExportImage leakyEngine sameUuid [''foo:tag''] =
     (Return None,
      [EvTmpImage ''docker.io/library/foo:tag-tmp-exportU'',
       EvExport [WithSkipNonDistributableBlobs,
                 WithPlatform (allPlatformsWithPreference platforms_Default),
                 WithManifest trimmed_index ''docker.io/library/foo:tag''],
       EvDelete ''docker.io/library/foo:tag-tmp-exportU'' (Some (ErrNew ''context canceled''))])
   \<and> ''docker.io/library/foo:tag-tmp-exportU''
       \<in> storeAfter {''docker.io/library/foo:tag''}
            (snd (ExportImage leakyEngine sameUuid [''foo:tag'']))"
  by (simp add: ExportImage_def optForImageExport_def resolveImage_def shortID_def
        IsIndexType_def IsManifestType_def sameUuid_def Let_def storeAfter_def
        leakyEngine_def partialIndexEngine_def fullIndexEngine_def quietEngine_def
        foo_tag_def amd64_manifest_def arm64_manifest_def linux_amd64_def linux_arm64_def
        digest_a6_def digest_a8_def)

section \<open>Properties of the import\<close>

text \<open>
  The loop over the imported images either stops at the first image whose unpack fails,
  having processed the images before it, or processes all of them and returns no error.
\<close>

lemma unpackLoop_split:
  "(\<exists>done bad rest err. imgs = done @ bad # rest \<and> \<not> list_ex (unpackFails i) done
       \<and> image_IsUnpacked i bad = Inr False \<and> image_Unpack i bad = Some err
       \<and> unpackLoop i imgs =
           (Some (Wrap err ''failed to unpack image''), concat (map (unpackSteps i) (done @ [bad]))))
   \<or> (\<not> list_ex (unpackFails i) imgs
       \<and> unpackLoop i imgs = (None, concat (map (unpackSteps i) imgs)))"
proof (induction imgs)
  case Nil
  then show ?case by simp
next
  case (Cons img imgs)
  show ?case
  proof (cases "unpackFails i img")
    case True
    then obtain err where "image_IsUnpacked i img = Inr False" "image_Unpack i img = Some err"
      by (auto simp: unpackFails_def)
    then have "img # imgs = [] @ img # imgs \<and> \<not> list_ex (unpackFails i) []
       \<and> image_IsUnpacked i img = Inr False \<and> image_Unpack i img = Some err
       \<and> unpackLoop i (img # imgs) =
           (Some (Wrap err ''failed to unpack image''), concat (map (unpackSteps i) ([] @ [img])))"
      by (simp add: unpackSteps_def)
    then show ?thesis by blast
  next
    case False
    have step: "unpackLoop i (img # imgs) =
        (fst (unpackLoop i imgs), unpackSteps i img @ snd (unpackLoop i imgs))"
      using False
      by (auto simp: unpackFails_def unpackSteps_def split: sum.splits option.splits prod.splits)
    from Cons.IH show ?thesis
    proof (elim disjE exE conjE)
      fix dn bad rest err
      assume a: "imgs = dn @ bad # rest" "\<not> list_ex (unpackFails i) dn"
        "image_IsUnpacked i bad = Inr False" "image_Unpack i bad = Some err"
        "unpackLoop i imgs =
           (Some (Wrap err ''failed to unpack image''), concat (map (unpackSteps i) (dn @ [bad])))"
      then have "img # imgs = (img # dn) @ bad # rest \<and> \<not> list_ex (unpackFails i) (img # dn)
       \<and> image_IsUnpacked i bad = Inr False \<and> image_Unpack i bad = Some err
       \<and> unpackLoop i (img # imgs) =
           (Some (Wrap err ''failed to unpack image''), concat (map (unpackSteps i) ((img # dn) @ [bad])))"
        using False step by simp
      then show ?thesis by blast
    next
      assume "\<not> list_ex (unpackFails i) imgs"
        "unpackLoop i imgs = (None, concat (map (unpackSteps i) imgs))"
      then show ?thesis using False step by simp
    qed
  qed
qed

lemma EvUnpack_in_unpackSteps:
  "EvUnpack img \<in> set (unpackSteps i x) \<longleftrightarrow> img = x \<and> image_IsUnpacked i x = Inr False"
  by (auto simp: unpackSteps_def split: sum.splits)

lemma unpackSteps_cases:
  "isl (image_IsUnpacked i img) \<or> image_IsUnpacked i img = Inr True
   \<or> EvUnpack img \<in> set (unpackSteps i img)"
  by (cases "image_IsUnpacked i img") (auto simp: unpackSteps_def)

text \<open>
  Claim C8, amended. For every import call whose \<^verbatim>\<open>Import\<close> succeeds, the images are
  processed in order up to and including the first whose unpack fails. Every processed
  image either had its is-unpacked check fail (it is skipped and the loop continues), was
  already unpacked, or had an unpack attempted. When the call returns no error all images
  were processed and no unpack failed; otherwise the last processed image is the first one
  whose unpack fails, no image after it is processed, and the call returns that error
  wrapped as "failed to unpack image". The call returns an error iff some unpack attempt
  errored.
\<close>

theorem LoadImage_unpack_phase:
  assumes imported: "client_Import i = Inr imgs"
  shows "\<exists>processed rest. imgs = processed @ rest
     \<and> snd (LoadImage i) = EvImport # concat (map (unpackSteps i) processed)
     \<and> (\<forall>img\<in>set processed. isl (image_IsUnpacked i img) \<or> image_IsUnpacked i img = Inr True
            \<or> EvUnpack img \<in> set (snd (LoadImage i)))
     \<and> (case fst (LoadImage i) of
          None \<Rightarrow> rest = [] \<and> \<not> list_ex (unpackFails i) processed
        | Some e \<Rightarrow> \<exists>err. processed \<noteq> [] \<and> \<not> list_ex (unpackFails i) (butlast processed)
             \<and> image_IsUnpacked i (last processed) = Inr False
             \<and> image_Unpack i (last processed) = Some err \<and> e = Wrap err ''failed to unpack image'')
     \<and> ((fst (LoadImage i) \<noteq> None) =
          (\<exists>img. EvUnpack img \<in> set (snd (LoadImage i)) \<and> image_Unpack i img \<noteq> None))"
proof -
  have load: "LoadImage i = (fst (unpackLoop i imgs), EvImport # snd (unpackLoop i imgs))"
    using imported by (simp add: LoadImage_def split: prod.splits)
  from unpackLoop_split [of imgs i] show ?thesis
  proof (elim disjE exE conjE)
    fix dn bad rest err
    assume a: "imgs = dn @ bad # rest" "\<not> list_ex (unpackFails i) dn"
      "image_IsUnpacked i bad = Inr False" "image_Unpack i bad = Some err"
      "unpackLoop i imgs =
         (Some (Wrap err ''failed to unpack image''), concat (map (unpackSteps i) (dn @ [bad])))"
    have covered: "\<forall>img\<in>set (dn @ [bad]). isl (image_IsUnpacked i img) \<or> image_IsUnpacked i img = Inr True
            \<or> EvUnpack img \<in> set (snd (LoadImage i))"
      using a(5) load unpackSteps_cases [of i] by (auto simp: EvUnpack_in_unpackSteps)
    have attempted: "EvUnpack bad \<in> set (snd (LoadImage i))"
      using a load by (simp add: EvUnpack_in_unpackSteps)
    have "imgs = (dn @ [bad]) @ rest
     \<and> snd (LoadImage i) = EvImport # concat (map (unpackSteps i) (dn @ [bad]))
     \<and> (\<forall>img\<in>set (dn @ [bad]). isl (image_IsUnpacked i img) \<or> image_IsUnpacked i img = Inr True
            \<or> EvUnpack img \<in> set (snd (LoadImage i)))
     \<and> (case fst (LoadImage i) of
          None \<Rightarrow> rest = [] \<and> \<not> list_ex (unpackFails i) (dn @ [bad])
        | Some e \<Rightarrow> \<exists>err. (dn @ [bad]) \<noteq> [] \<and> \<not> list_ex (unpackFails i) (butlast (dn @ [bad]))
             \<and> image_IsUnpacked i (last (dn @ [bad])) = Inr False
             \<and> image_Unpack i (last (dn @ [bad])) = Some err \<and> e = Wrap err ''failed to unpack image'')
     \<and> ((fst (LoadImage i) \<noteq> None) =
          (\<exists>img. EvUnpack img \<in> set (snd (LoadImage i)) \<and> image_Unpack i img \<noteq> None))"
      using a covered attempted load by auto
    then show ?thesis by blast
  next
    assume b: "\<not> list_ex (unpackFails i) imgs"
      "unpackLoop i imgs = (None, concat (map (unpackSteps i) imgs))"
    have covered: "\<forall>img\<in>set imgs. isl (image_IsUnpacked i img) \<or> image_IsUnpacked i img = Inr True
            \<or> EvUnpack img \<in> set (snd (LoadImage i))"
      using b(2) load unpackSteps_cases [of i] by (auto simp: EvUnpack_in_unpackSteps)
    have none: "\<not> (\<exists>img. EvUnpack img \<in> set (snd (LoadImage i)) \<and> image_Unpack i img \<noteq> None)"
      using b load by (auto simp: EvUnpack_in_unpackSteps list_ex_iff unpackFails_def)
    have "imgs = imgs @ []
     \<and> snd (LoadImage i) = EvImport # concat (map (unpackSteps i) imgs)
     \<and> (\<forall>img\<in>set imgs. isl (image_IsUnpacked i img) \<or> image_IsUnpacked i img = Inr True
            \<or> EvUnpack img \<in> set (snd (LoadImage i)))
     \<and> (case fst (LoadImage i) of
          None \<Rightarrow> [] = ([] :: image list) \<and> \<not> list_ex (unpackFails i) imgs
        | Some e \<Rightarrow> \<exists>err. imgs \<noteq> [] \<and> \<not> list_ex (unpackFails i) (butlast imgs)
             \<and> image_IsUnpacked i (last imgs) = Inr False
             \<and> image_Unpack i (last imgs) = Some err \<and> e = Wrap err ''failed to unpack image'')
     \<and> ((fst (LoadImage i) \<noteq> None) =
          (\<exists>img. EvUnpack img \<in> set (snd (LoadImage i)) \<and> image_Unpack i img \<noteq> None))"
      using b covered none load by auto
    then show ?thesis by blast
  qed
qed

theorem LoadImage_unpack_phase_witness:
  "client_Import diskFullEngine = Inr [abc123_latest, other_latest]
   \<and> unpackFails diskFullEngine abc123_latest
   \<and> unpackFails diskFullEngine other_latest
   \<and> snd (LoadImage diskFullEngine) = [EvImport, EvIsUnpacked abc123_latest, EvUnpack abc123_latest]
   \<and> EvUnpack other_latest \<notin> set (snd (LoadImage diskFullEngine))"
proof -
  have imported: "client_Import diskFullEngine = Inr [abc123_latest, other_latest]"
    by (simp add: diskFullEngine_def importEngine_def)
  have fails: "unpackFails diskFullEngine abc123_latest" "unpackFails diskFullEngine other_latest"
    by (simp_all add: unpackFails_def diskFullEngine_def importEngine_def)
  have neq: "abc123_latest \<noteq> other_latest"
    by (simp add: abc123_latest_def other_latest_def)
  have steps: "unpackSteps diskFullEngine abc123_latest = [EvIsUnpacked abc123_latest, EvUnpack abc123_latest]"
    by (simp add: unpackSteps_def diskFullEngine_def importEngine_def)
  from LoadImage_unpack_phase [OF imported] obtain processed rest where
    split: "[abc123_latest, other_latest] = processed @ rest"
    and tr: "snd (LoadImage diskFullEngine) = EvImport # concat (map (unpackSteps diskFullEngine) processed)"
    and res: "case fst (LoadImage diskFullEngine) of
          None \<Rightarrow> rest = [] \<and> \<not> list_ex (unpackFails diskFullEngine) processed
        | Some e \<Rightarrow> \<exists>err. processed \<noteq> [] \<and> \<not> list_ex (unpackFails diskFullEngine) (butlast processed)
             \<and> image_IsUnpacked diskFullEngine (last processed) = Inr False
             \<and> image_Unpack diskFullEngine (last processed) = Some err
             \<and> e = Wrap err ''failed to unpack image''"
    by blast
  from split have shape: "processed = [] \<and> rest = [abc123_latest, other_latest]
      \<or> processed = [abc123_latest] \<and> rest = [other_latest]
      \<or> processed = [abc123_latest, other_latest] \<and> rest = []"
    by (auto simp: Cons_eq_append_conv)
  have first: "processed = [abc123_latest]"
  proof (cases "fst (LoadImage diskFullEngine)")
    case None
    with res shape fails show ?thesis by auto
  next
    case (Some e)
    with res shape fails show ?thesis by auto
  qed
  with tr steps have run: "snd (LoadImage diskFullEngine)
      = [EvImport, EvIsUnpacked abc123_latest, EvUnpack abc123_latest]"
    by simp
  with neq have "EvUnpack other_latest \<notin> set (snd (LoadImage diskFullEngine))"
    by auto
  with imported fails run show ?thesis by blast
qed

text \<open>
  Claim C8, as stated, fails. Two images are imported, neither is unpacked, and the unpack
  of the first fails: the call returns at once, and the second image is neither already
  unpacked nor has an unpack attempted.
\<close>

theorem LoadImage_skips_after_failure:
  "LoadImage importEngine =
     (Some (Wrap (ErrNew ''no space left on device'') ''failed to unpack image''),
      [EvImport, EvIsUnpacked abc123_latest, EvUnpack abc123_latest])
   \<and> client_Import importEngine = Inr [abc123_latest, other_latest]
   \<and> image_IsUnpacked importEngine other_latest = Inr False
   \<and> EvUnpack other_latest \<notin> set (snd (LoadImage importEngine))"
  by (simp add: LoadImage_def importEngine_def quietEngine_def abc123_latest_def other_latest_def)

end
